theory Spec2Isabelle
  imports Complex_Main "HOL-Library.Word" "HOL-Library.Sublist"
begin

section \<open>The AthleteAI demo server (server.py)\<close>

text \<open>
  A shallow embedding of the request handler class \<open>AthleteAIHandler\<close>. The functions
  of the class keep their names. Python exceptions are values of type \<open>exn\<close>, a function
  that may raise returns \<open>exn + 'a\<close> (with the state of the connection next to the
  exception where it may have written before it raises), and what the handler writes to
  the connection is an explicit state of type \<open>conn\<close>.
\<close>

subsection \<open>Values\<close>

text \<open>
  A Python float as \<open>json.loads\<close> can produce it: a finite value (\<open>Finite 0\<close> is
  \<open>0.0\<close>), the negative zero, the two infinities and NaN.
\<close>

datatype pyfloat = Finite rat | NegZero | PosInf | NegInf | NaN

text \<open>
  The values \<open>json.loads\<close> returns, which are also the values \<open>json.dumps\<close> is
  given. A dict is an association list in insertion order whose keys are strings; a
  lookup reads the first binding of a key.
\<close>

datatype json =
    JNull
  | JBool bool
  | JInt int
  | JFloat pyfloat
  | JStr string
  | JArr "json list"
  | JObj "(string \<times> json) list"

text \<open>The exception classes that can occur while a request is handled.\<close>

datatype exn =
    TypeError
  | ValueError
  | OverflowError
  | MemoryError
  | AttributeError
  | IndexError
  | UnicodeDecodeError
  | JSONDecodeError
  | RecursionError

text \<open>
  \<open>datetime.now()\<close>, read once per request, as the two renderings the handlers use:
  \<open>.isoformat()\<close> and the text of \<open>.timestamp()\<close> inside an f-string.
\<close>

record datetime =
  isoformat :: string
  timestamp :: string

subsection \<open>Built-in operations on values\<close>

text \<open>
  \<open>data.get(key, default)\<close>. Only a dict has the method; on every other parsed value
  the attribute lookup raises AttributeError.
\<close>

fun py_get :: "json \<Rightarrow> string \<Rightarrow> json \<Rightarrow> exn + json" where
  "py_get (JObj kv) k d = Inr (case map_of kv k of Some v \<Rightarrow> v | None \<Rightarrow> d)"
| "py_get _ k d = Inl AttributeError"

text \<open>Python truthiness, as \<open>not x\<close> tests it.\<close>

fun truthy :: "json \<Rightarrow> bool" where
  "truthy JNull = False"
| "truthy (JBool b) = b"
| "truthy (JInt i) = (i \<noteq> 0)"
| "truthy (JFloat f) = (case f of Finite r \<Rightarrow> r \<noteq> 0 | NegZero \<Rightarrow> False | _ \<Rightarrow> True)"
| "truthy (JStr s) = (s \<noteq> [])"
| "truthy (JArr xs) = (xs \<noteq> [])"
| "truthy (JObj kv) = (kv \<noteq> [])"

text \<open>
  Whether \<open>hash(x)\<close> succeeds: a list and a dict are unhashable, every other parsed
  value is hashable.
\<close>

fun hashable :: "json \<Rightarrow> bool" where
  "hashable (JArr xs) = False"
| "hashable (JObj kv) = False"
| "hashable v = True"

text \<open>The nesting depth of a value: the longest chain of lists and dicts inside it.\<close>

fun json_depth :: "json \<Rightarrow> nat" where
  "json_depth (JArr xs) = Suc (foldr (\<lambda>x d. max (json_depth x) d) xs 0)"
| "json_depth (JObj kv) = Suc (foldr (\<lambda>p d. max (json_depth (snd p)) d) kv 0)"
| "json_depth v = 0"

text \<open>\<open>s.split(c)\<close> for a separator of one character: never an empty list.\<close>

fun py_split :: "char \<Rightarrow> string \<Rightarrow> string list" where
  "py_split c [] = [[]]"
| "py_split c (x # xs) =
     (if x = c then [] # py_split c xs
      else (case py_split c xs of [] \<Rightarrow> [[x]] | p # ps \<Rightarrow> (x # p) # ps))"

text \<open>\<open>xs[0]\<close>, which raises IndexError on an empty list.\<close>

definition first_item :: "'a list \<Rightarrow> exn + 'a" where
  "first_item xs = (case xs of [] \<Rightarrow> Inl IndexError | x # _ \<Rightarrow> Inr x)"

subsection \<open>The demo table and the four POST handlers\<close>

record demo_user =
  password :: string
  role :: string
  name :: string

definition demo_users :: "(string \<times> demo_user) list" where
  "demo_users =
    [(''athlete@demo.com'', \<lparr>password = ''password123'', role = ''athlete'', name = ''Demo Athlete''\<rparr>),
     (''coach@demo.com'', \<lparr>password = ''password123'', role = ''coach'', name = ''Demo Coach''\<rparr>),
     (''admin@demo.com'', \<lparr>password = ''password123'', role = ''admin'', name = ''Demo Admin''\<rparr>)]"

definition invalid_credentials :: json where
  "invalid_credentials = JObj [(''success'', JBool False), (''error'', JStr ''Invalid credentials'')]"

text \<open>
  The success branch of \<open>handle_login\<close>, entered with \<open>email\<close> a string key of the
  table and \<open>u\<close> its entry.
\<close>

definition login_success :: "datetime \<Rightarrow> string \<Rightarrow> demo_user \<Rightarrow> exn + json" where
  "login_success now email u =
     (case first_item (py_split CHR ''@'' email) of
        Inl e \<Rightarrow> Inl e
      | Inr local_part \<Rightarrow>
          Inr (JObj [(''success'', JBool True),
                     (''user'', JObj [(''id'', JStr (''user_'' @ local_part)),
                                      (''email'', JStr email),
                                      (''name'', JStr (name u)),
                                      (''role'', JStr (role u))]),
                     (''token'', JStr (''demo_token_'' @ timestamp now))]))"

text \<open>
  \<open>email in demo_users\<close> hashes \<open>email\<close>: a list or a dict is unhashable and raises
  TypeError; a number, a boolean or None is hashable and equals no string key. The
  comparison \<open>demo_users[email]['password'] == password\<close> is evaluated only when the key
  is present, and a string equals only the same string.
\<close>

definition handle_login :: "datetime \<Rightarrow> json \<Rightarrow> exn + json" where
  "handle_login now data =
     (case py_get data ''email'' (JStr '''') of
        Inl e \<Rightarrow> Inl e
      | Inr email \<Rightarrow>
     (case py_get data ''password'' (JStr '''') of
        Inl e \<Rightarrow> Inl e
      | Inr pw \<Rightarrow>
     (if \<not> hashable email then Inl TypeError
      else
        (case email of
           JStr s \<Rightarrow>
             (case map_of demo_users s of
                Some u \<Rightarrow> if JStr (password u) = pw then login_success now s u
                          else Inr invalid_credentials
              | None \<Rightarrow> Inr invalid_credentials)
         | _ \<Rightarrow> Inr invalid_credentials))))"

definition missing_fields :: json where
  "missing_fields = JObj [(''success'', JBool False), (''error'', JStr ''Missing required fields'')]"

definition handle_register :: "datetime \<Rightarrow> json \<Rightarrow> exn + json" where
  "handle_register now data =
     (case py_get data ''name'' (JStr '''') of
        Inl e \<Rightarrow> Inl e
      | Inr nm \<Rightarrow>
     (case py_get data ''email'' (JStr '''') of
        Inl e \<Rightarrow> Inl e
      | Inr email \<Rightarrow>
     (case py_get data ''password'' (JStr '''') of
        Inl e \<Rightarrow> Inl e
      | Inr pw \<Rightarrow>
     (case py_get data ''role'' (JStr ''athlete'') of
        Inl e \<Rightarrow> Inl e
      | Inr rl \<Rightarrow>
          if \<not> truthy nm \<or> \<not> truthy email \<or> \<not> truthy pw then Inr missing_fields
          else Inr (JObj [(''success'', JBool True),
                          (''user'', JObj [(''id'', JStr (''user_'' @ timestamp now)),
                                           (''name'', nm),
                                           (''email'', email),
                                           (''role'', rl)])])))))"

definition handle_training_session :: "datetime \<Rightarrow> json \<Rightarrow> exn + json" where
  "handle_training_session now data =
     Inr (JObj [(''success'', JBool True),
                (''sessionId'', JStr (''session_'' @ timestamp now)),
                (''message'', JStr ''Training session saved successfully'')])"

definition handle_ai_analysis :: "datetime \<Rightarrow> json \<Rightarrow> exn + json" where
  "handle_ai_analysis now data =
     Inr (JObj [(''success'', JBool True),
                (''analysisId'', JStr (''analysis_'' @ timestamp now)),
                (''message'', JStr ''AI analysis saved successfully'')])"

subsection \<open>Requests\<close>

text \<open>
  The attributes of a request as the handler holds them: \<open>self.command\<close>,
  \<open>self.path\<close> (the request target, query string included), \<open>self.request_version\<close>,
  \<open>self.headers['Content-Length']\<close> (\<open>None\<close> when the header is absent) and the
  bytes the client sends after the header block, up to the end of its stream.

  \<open>request_version\<close> is the last word of a request line of three words, and
  \<open>HTTP/0.9\<close> for a request line of two words (which the base class accepts for GET
  only). It is also \<open>HTTP/0.9\<close> while the base class has not yet accepted the
  version of the request line; \<open>command\<close> is empty as long as none has been read.
\<close>

record request =
  command :: string  path :: string
  request_version :: string
  content_length :: "string option"
  rfile :: "8 word list"

subsection \<open>The connection\<close>

text \<open>
  What the handler writes to \<open>wfile\<close>: the head of a response (status code, message
  of the status line, header lines) and then its body. The header lines are those this
  file and \<open>send_error\<close> add by \<open>send_header\<close>, in order; the Server and Date lines
  that \<open>send_response\<close> adds first and the Content-Length line of an error page hold
  values of the running process and are left out.
\<close>

datatype body = JsonBody json | ErrorPage nat string | FileBody "8 word list"

datatype chunk = Head nat string "(string \<times> string) list" | Body body

text \<open>
  The state of one connection: the status line and the header lines that are buffered
  and not yet written, and the chunks written so far.
\<close>

record conn =
  status_line :: "(nat \<times> string) option"
  headers_buffer :: "(string \<times> string) list"
  wfile :: "chunk list"

definition fresh :: conn where
  "fresh = \<lparr>status_line = None, headers_buffer = [], wfile = []\<rparr>"

text \<open>
  The base class (\<open>http.server.BaseHTTPRequestHandler\<close>): \<open>send_response\<close> and
  \<open>send_header\<close> buffer, the base \<open>end_headers\<close> writes the buffered head. Each of
  the three does so only if \<open>self.request_version != 'HTTP/0.9'\<close>; for a request of
  version HTTP/0.9 nothing is buffered and nothing is written.
\<close>

definition send_response :: "request \<Rightarrow> nat \<Rightarrow> string \<Rightarrow> conn \<Rightarrow> conn" where
  "send_response req code message c =
     (if request_version req \<noteq> ''HTTP/0.9'' then c\<lparr>status_line := Some (code, message)\<rparr>
      else c)"

definition send_header :: "request \<Rightarrow> string \<Rightarrow> string \<Rightarrow> conn \<Rightarrow> conn" where
  "send_header req keyword v c =
     (if request_version req \<noteq> ''HTTP/0.9''
      then c\<lparr>headers_buffer := headers_buffer c @ [(keyword, v)]\<rparr>
      else c)"

definition base_end_headers :: "request \<Rightarrow> conn \<Rightarrow> conn" where
  "base_end_headers req c =
     (if request_version req \<noteq> ''HTTP/0.9'' then
        (case status_line c of
           None \<Rightarrow> c\<lparr>headers_buffer := []\<rparr>
         | Some (code, message) \<Rightarrow>
             c\<lparr>status_line := None, headers_buffer := [],
               wfile := wfile c @ [Head code message (headers_buffer c)]\<rparr>)
      else c)"

definition wfile_write :: "body \<Rightarrow> conn \<Rightarrow> conn" where
  "wfile_write b c = c\<lparr>wfile := wfile c @ [Body b]\<rparr>"

text \<open>The override of \<open>end_headers\<close> in this file.\<close>

definition end_headers :: "request \<Rightarrow> conn \<Rightarrow> conn" where
  "end_headers req c =
     base_end_headers req
       (send_header req ''Expires'' ''0''
       (send_header req ''Pragma'' ''no-cache''
       (send_header req ''Cache-Control'' ''no-cache, no-store, must-revalidate''
       (send_header req ''Access-Control-Allow-Headers'' ''Content-Type, Authorization''
       (send_header req ''Access-Control-Allow-Methods'' ''GET, POST, PUT, DELETE, OPTIONS''
       (send_header req ''Access-Control-Allow-Origin'' ''*'' c))))))"

text \<open>
  \<open>send_error\<close> of the base class: the status line with the given message and the
  Connection line; for a status that has a body (200 and above, except 204, 205 and
  304) the Content-Type line; \<open>self.end_headers()\<close>, which is the override above;
  and then the error page, unless \<open>self.command\<close> is \<open>HEAD\<close>.
\<close>

definition has_error_page :: "nat \<Rightarrow> bool" where
  "has_error_page code = (200 \<le> code \<and> code \<noteq> 204 \<and> code \<noteq> 205 \<and> code \<noteq> 304)"

definition send_error :: "request \<Rightarrow> nat \<Rightarrow> string \<Rightarrow> conn \<Rightarrow> conn" where
  "send_error req code message c =
     (let c1 = send_header req ''Connection'' ''close'' (send_response req code message c)
      in if has_error_page code
         then (let c2 = end_headers req
                          (send_header req ''Content-Type'' ''text/html;charset=utf-8'' c1)
               in if command req \<noteq> ''HEAD'' then wfile_write (ErrorPage code message) c2
                  else c2)
         else end_headers req c1)"

subsection \<open>The environment\<close>

text \<open>
  What \<open>SimpleHTTPRequestHandler.send_head\<close> decides for a path: an answer through
  \<open>send_error\<close>; a head of its own (status, message, header lines) and the file to
  copy, if any; or an exception that nothing catches, raised before anything is written
  (\<open>open\<close> on a path with a null byte, for one).
\<close>

datatype static_reply =
    Served nat string "(string \<times> string) list" "8 word list option"
  | Refused nat string
  | Raised

text \<open>What allocating the buffer for a read of \<open>n\<close> bytes comes to.\<close>

datatype allocation = Allocated | TooLarge | OutOfMemory

text \<open>
  The library, the platform and the clock are parameters of the model: \<open>int\<close> on a
  header text, \<open>sys.maxsize\<close>, the allocation of a bytes object of a given size,
  \<open>json.loads\<close> on the decoded text (a list of code points), the nesting that
  \<open>json.dumps\<close> has room for beyond the two levels of this file's own answers,
  \<open>str\<close> of an exception, \<open>repr\<close> of a string, the static file server and
  \<open>datetime.now()\<close>.
\<close>

record env =
  now :: datetime
  int_of_str :: "string \<Rightarrow> exn + int"
  maxsize :: int
  bytes_alloc :: "nat \<Rightarrow> allocation"
  json_loads :: "nat list \<Rightarrow> exn + json"
  dumps_room :: nat
  str_of_exn :: "exn \<Rightarrow> string"
  repr_of_str :: "string \<Rightarrow> string"
  static_get :: "string \<Rightarrow> static_reply"

text \<open>
  \<open>json.dumps(data)\<close>. The encoder recurses once for every list and dict around a
  value and raises RecursionError when the nesting is deeper than it has room for. The
  text it returns stands for the value, so the model keeps the value. (With its default
  settings the encoder accepts every value that \<open>json.loads\<close> returns, and its
  output is ASCII, so that \<open>encode('utf-8')\<close> does not raise.)
\<close>

definition json_dumps :: "env \<Rightarrow> json \<Rightarrow> exn + json" where
  "json_dumps env data =
     (if json_depth data \<le> 2 + dumps_room env then Inr data else Inl RecursionError)"

text \<open>
  \<open>rfile.read(n)\<close> on the buffered reader of the connection. An \<open>n\<close> outside the
  range of the platform's size type raises OverflowError and any other \<open>n\<close> below
  \<open>-1\<close> raises ValueError. \<open>read(-1)\<close> returns the whole stream. Otherwise a buffer of
  \<open>n\<close> bytes is allocated, which raises OverflowError or MemoryError when \<open>n\<close> is
  too large, and the read returns \<open>n\<close> bytes, or fewer when the stream ends before.
\<close>

definition rfile_read :: "env \<Rightarrow> int \<Rightarrow> 8 word list \<Rightarrow> exn + 8 word list" where
  "rfile_read env n bs =
     (if n < - maxsize env - 1 \<or> maxsize env < n then Inl OverflowError
      else if n < - 1 then Inl ValueError
      else if n = - 1 then Inr bs
      else (case bytes_alloc env (nat n) of
              Allocated \<Rightarrow> Inr (take (nat n) bs)
            | TooLarge \<Rightarrow> Inl OverflowError
            | OutOfMemory \<Rightarrow> Inl MemoryError))"

text \<open>
  \<open>bytes.decode('utf-8')\<close> in strict mode, after the table of well-formed byte
  sequences of the Unicode standard: \<open>None\<close> is UnicodeDecodeError.
\<close>

definition cont :: "8 word \<Rightarrow> bool" where
  "cont b = (0x80 \<le> b \<and> b \<le> 0xBF)"

definition tail6 :: "8 word \<Rightarrow> nat" where
  "tail6 b = unat b - 0x80"

text \<open>The range of the second byte, which depends on the first one.\<close>

definition second_ok :: "8 word \<Rightarrow> 8 word \<Rightarrow> bool" where
  "second_ok b0 b1 =
     ((if b0 = 0xE0 then 0xA0 else if b0 = 0xF0 then 0x90 else 0x80) \<le> b1
      \<and> b1 \<le> (if b0 = 0xED then 0x9F else if b0 = 0xF4 then 0x8F else 0xBF))"

fun utf8_decode :: "8 word list \<Rightarrow> nat list option" where
  "utf8_decode [] = Some []"
| "utf8_decode [b0] =
     (if b0 \<le> 0x7F then Some [unat b0] else None)"
| "utf8_decode [b0, b1] =
     (if b0 \<le> 0x7F then map_option ((#) (unat b0)) (utf8_decode [b1])
      else if 0xC2 \<le> b0 \<and> b0 \<le> 0xDF \<and> cont b1
        then Some [(unat b0 - 0xC0) * 64 + tail6 b1]
      else None)"
| "utf8_decode [b0, b1, b2] =
     (if b0 \<le> 0x7F then map_option ((#) (unat b0)) (utf8_decode [b1, b2])
      else if 0xC2 \<le> b0 \<and> b0 \<le> 0xDF \<and> cont b1
        then map_option ((#) ((unat b0 - 0xC0) * 64 + tail6 b1)) (utf8_decode [b2])
      else if 0xE0 \<le> b0 \<and> b0 \<le> 0xEF \<and> second_ok b0 b1 \<and> cont b2
        then Some [(unat b0 - 0xE0) * 4096 + tail6 b1 * 64 + tail6 b2]
      else None)"
| "utf8_decode (b0 # b1 # b2 # b3 # bs) =
     (if b0 \<le> 0x7F then map_option ((#) (unat b0)) (utf8_decode (b1 # b2 # b3 # bs))
      else if 0xC2 \<le> b0 \<and> b0 \<le> 0xDF \<and> cont b1
        then map_option ((#) ((unat b0 - 0xC0) * 64 + tail6 b1)) (utf8_decode (b2 # b3 # bs))
      else if 0xE0 \<le> b0 \<and> b0 \<le> 0xEF \<and> second_ok b0 b1 \<and> cont b2
        then map_option ((#) ((unat b0 - 0xE0) * 4096 + tail6 b1 * 64 + tail6 b2))
               (utf8_decode (b3 # bs))
      else if 0xF0 \<le> b0 \<and> b0 \<le> 0xF4 \<and> second_ok b0 b1 \<and> cont b2 \<and> cont b3
        then map_option
               ((#) ((unat b0 - 0xF0) * 262144 + tail6 b1 * 4096 + tail6 b2 * 64 + tail6 b3))
               (utf8_decode bs)
      else None)"

subsection \<open>The API handlers\<close>

text \<open>
  \<open>send_json_response\<close> writes the head before it encodes the body. When
  \<open>json.dumps\<close> raises, the exception leaves the function with the head already
  written: an exception of the handler comes with the state of the connection.
\<close>

definition send_json_response :: "env \<Rightarrow> request \<Rightarrow> json \<Rightarrow> conn \<Rightarrow> exn \<times> conn + conn" where
  "send_json_response env req data c =
     (let c' = end_headers req
                 (send_header req ''Content-Type'' ''application/json''
                 (send_response req 200 ''OK'' c))
      in case json_dumps env data of
           Inl e \<Rightarrow> Inl (e, c')
         | Inr text \<Rightarrow> Inr (wfile_write (JsonBody text) c'))"

definition api_config :: json where
  "api_config =
     JObj [(''appName'', JStr ''AthleteAI''),
           (''version'', JStr ''1.0.0''),
           (''features'', JObj [(''aiTesting'', JBool True),
                                (''faceRecognition'', JBool True),
                                (''offlineMode'', JBool True),
                                (''pwa'', JBool True)])]"

text \<open>\<open>handle_api_get\<close>: the \<open>try\<close> block and its \<open>except\<close> clause.\<close>

definition handle_api_get :: "env \<Rightarrow> request \<Rightarrow> conn \<Rightarrow> conn" where
  "handle_api_get env req c =
     (case (if path req = ''/api/health'' then
              send_json_response env req
                (JObj [(''status'', JStr ''healthy''),
                       (''timestamp'', JStr (isoformat (now env)))]) c
            else if path req = ''/api/config'' then send_json_response env req api_config c
            else Inr (send_error req 404 ''API endpoint not found'' c)) of
        Inr c' \<Rightarrow> c'
      | Inl (e, c') \<Rightarrow> send_error req 500 (''Internal server error: '' @ str_of_exn env e) c')"

text \<open>
  The first three statements of the \<open>try\<close> block of \<open>handle_api_post\<close>:
  \<open>int(self.headers['Content-Length'])\<close> (\<open>int(None)\<close> raises TypeError),
  \<open>self.rfile.read\<close>, \<open>decode\<close> and \<open>json.loads\<close>.
\<close>

definition read_json :: "env \<Rightarrow> request \<Rightarrow> exn + json" where
  "read_json env req =
     (case content_length req of
        None \<Rightarrow> Inl TypeError
      | Some text \<Rightarrow>
     (case int_of_str env text of
        Inl e \<Rightarrow> Inl e
      | Inr n \<Rightarrow>
     (case rfile_read env n (rfile req) of
        Inl e \<Rightarrow> Inl e
      | Inr post_data \<Rightarrow>
     (case utf8_decode post_data of
        None \<Rightarrow> Inl UnicodeDecodeError
      | Some decoded \<Rightarrow> json_loads env decoded))))"

text \<open>
  The rest of the \<open>try\<close> block: the chain on \<open>self.path\<close> and the response. A
  handler raises before anything is written.
\<close>

definition route_post :: "env \<Rightarrow> request \<Rightarrow> json \<Rightarrow> conn \<Rightarrow> exn \<times> conn + conn" where
  "route_post env req data c =
     (if path req = ''/api/auth/login'' then
        (case handle_login (now env) data of
           Inl e \<Rightarrow> Inl (e, c) | Inr response \<Rightarrow> send_json_response env req response c)
      else if path req = ''/api/auth/register'' then
        (case handle_register (now env) data of
           Inl e \<Rightarrow> Inl (e, c) | Inr response \<Rightarrow> send_json_response env req response c)
      else if path req = ''/api/training/sessions'' then
        (case handle_training_session (now env) data of
           Inl e \<Rightarrow> Inl (e, c) | Inr response \<Rightarrow> send_json_response env req response c)
      else if path req = ''/api/ai/analysis'' then
        (case handle_ai_analysis (now env) data of
           Inl e \<Rightarrow> Inl (e, c) | Inr response \<Rightarrow> send_json_response env req response c)
      else Inr (send_error req 404 ''API endpoint not found'' c))"

text \<open>
  \<open>handle_api_post\<close>: the \<open>try\<close> block and its two \<open>except\<close> clauses, which
  answer on the connection as the exception left it.
\<close>

definition handle_api_post :: "env \<Rightarrow> request \<Rightarrow> conn \<Rightarrow> conn" where
  "handle_api_post env req c =
     (case (case read_json env req of
              Inl e \<Rightarrow> Inl (e, c)
            | Inr data \<Rightarrow> route_post env req data c) of
        Inr c' \<Rightarrow> c'
      | Inl (JSONDecodeError, c') \<Rightarrow> send_error req 400 ''Invalid JSON'' c'
      | Inl (e, c') \<Rightarrow> send_error req 500 (''Internal server error: '' @ str_of_exn env e) c')"

subsection \<open>The request methods\<close>

definition do_OPTIONS :: "env \<Rightarrow> request \<Rightarrow> conn \<Rightarrow> conn" where
  "do_OPTIONS env req c = end_headers req (send_response req 200 ''OK'' c)"

text \<open>
  \<open>send_head\<close>, \<open>do_GET\<close> and \<open>do_HEAD\<close> of \<open>SimpleHTTPRequestHandler\<close>.
  \<open>send_head\<close> answers through \<open>send_error\<close>, or writes a head that it closes with
  \<open>self.end_headers()\<close>, and returns the file to copy, if any; \<open>do_GET\<close> copies the
  file and \<open>do_HEAD\<close> does not. When \<open>send_head\<close> raises, the exception leaves the
  request method and the connection is as it was.
\<close>

definition send_head :: "env \<Rightarrow> request \<Rightarrow> conn \<Rightarrow> conn \<times> 8 word list option" where
  "send_head env req c =
     (case static_get env (path req) of
        Raised \<Rightarrow> (c, None)
      | Refused code message \<Rightarrow> (send_error req code message c, None)
      | Served code message hs f \<Rightarrow>
          (end_headers req
             (fold (\<lambda>(k, v). send_header req k v) hs (send_response req code message c)), f))"

definition static_do_GET :: "env \<Rightarrow> request \<Rightarrow> conn \<Rightarrow> conn" where
  "static_do_GET env req c =
     (case send_head env req c of
        (c', None) \<Rightarrow> c'
      | (c', Some bytes) \<Rightarrow> wfile_write (FileBody bytes) c')"

definition do_HEAD :: "env \<Rightarrow> request \<Rightarrow> conn \<Rightarrow> conn" where
  "do_HEAD env req c = fst (send_head env req c)"

text \<open>The two request methods that this file overrides or adds, next to \<open>do_OPTIONS\<close>.\<close>

definition do_GET :: "env \<Rightarrow> request \<Rightarrow> conn \<Rightarrow> conn" where
  "do_GET env req c =
     (if prefix ''/api/'' (path req) then handle_api_get env req c
      else static_do_GET env req c)"

definition do_POST :: "env \<Rightarrow> request \<Rightarrow> conn \<Rightarrow> conn" where
  "do_POST env req c =
     (if prefix ''/api/'' (path req) then handle_api_post env req c
      else send_error req 404 ''Not Found'' c)"

text \<open>
  The dispatch of \<open>handle_one_request\<close> for a request that \<open>parse_request\<close> has
  accepted, on a connection with nothing written yet: the method \<open>do_\<close> followed by
  \<open>self.command\<close> if the class has it. The class has the four above. For every other
  command the base class answers 501.
\<close>

definition serve :: "env \<Rightarrow> request \<Rightarrow> chunk list" where
  "serve env req =
     wfile (if command req = ''GET'' then do_GET env req fresh
            else if command req = ''POST'' then do_POST env req fresh
            else if command req = ''OPTIONS'' then do_OPTIONS env req fresh
            else if command req = ''HEAD'' then do_HEAD env req fresh
            else send_error req 501
                   (''Unsupported method ('' @ repr_of_str env (command req) @ '')'') fresh)"

text \<open>
  An answer of the base class alone, before any request method runs (a request line
  it cannot parse, a version it does not support, a header block it refuses): a call of
  \<open>send_error\<close> on a connection with nothing written yet, with the attributes set so
  far.
\<close>

definition refuse :: "request \<Rightarrow> nat \<Rightarrow> string \<Rightarrow> chunk list" where
  "refuse req code message = wfile (send_error req code message fresh)"

subsection \<open>What a response looks like on the wire\<close>

text \<open>The six header lines that the override of \<open>end_headers\<close> adds, in its order.\<close>

definition fixed_headers :: "(string \<times> string) list" where
  "fixed_headers =
     [(''Access-Control-Allow-Origin'', ''*''),
      (''Access-Control-Allow-Methods'', ''GET, POST, PUT, DELETE, OPTIONS''),
      (''Access-Control-Allow-Headers'', ''Content-Type, Authorization''),
      (''Cache-Control'', ''no-cache, no-store, must-revalidate''),
      (''Pragma'', ''no-cache''),
      (''Expires'', ''0'')]"

text \<open>
  The chunks of a JSON answer and of an error answer as this file sends them through
  \<open>send_response\<close>, \<open>send_header\<close>, \<open>end_headers\<close> and \<open>wfile.write\<close>.
\<close>

definition json_reply :: "json \<Rightarrow> chunk list" where
  "json_reply data =
     [Head 200 ''OK'' ((''Content-Type'', ''application/json'') # fixed_headers),
      Body (JsonBody data)]"

text \<open>The head of a JSON answer alone, which is all of it when \<open>json.dumps\<close> raises.\<close>

definition json_head :: "chunk list" where
  "json_head = [Head 200 ''OK'' ((''Content-Type'', ''application/json'') # fixed_headers)]"

definition error_reply :: "nat \<Rightarrow> string \<Rightarrow> chunk list" where
  "error_reply code message =
     (if has_error_page code
      then [Head code message
              ((''Connection'', ''close'') # (''Content-Type'', ''text/html;charset=utf-8'') #
               fixed_headers),
            Body (ErrorPage code message)]
      else [Head code message ((''Connection'', ''close'') # fixed_headers)])"

text \<open>What the two \<open>except\<close> clauses of \<open>handle_api_post\<close> send for an exception.\<close>

definition except_reply :: "env \<Rightarrow> exn \<Rightarrow> chunk list" where
  "except_reply env e =
     (if e = JSONDecodeError then error_reply 400 ''Invalid JSON''
      else error_reply 500 (''Internal server error: '' @ str_of_exn env e))"

fun is_body :: "chunk \<Rightarrow> bool" where
  "is_body (Body b) = True"
| "is_body (Head code message hs) = False"

text \<open>
  What of an answer reaches the client. For a request of version HTTP/0.9 the base
  class writes neither the status line nor a header line, so that only the body chunks
  are written; for every other version the answer is written as it is sent.
\<close>

definition on_wire :: "request \<Rightarrow> chunk list \<Rightarrow> chunk list" where
  "on_wire req chunks =
     (if request_version req = ''HTTP/0.9'' then filter is_body chunks else chunks)"

text \<open>
  A head carries the fixed header lines when it holds all six of them. An answer is
  headed when it starts with a head and each of its heads carries the fixed header
  lines.
\<close>

fun carries :: "chunk \<Rightarrow> bool" where
  "carries (Head code message hs) = list_all (\<lambda>h. h \<in> set hs) fixed_headers"
| "carries (Body b) = True"

definition headed :: "chunk list \<Rightarrow> bool" where
  "headed answer =
     (list_all carries answer \<and> (case answer of [] \<Rightarrow> False | ch # rest \<Rightarrow> \<not> is_body ch))"

subsection \<open>A concrete environment for the closed examples\<close>

text \<open>
  The closed examples below run the model in one fixed environment. Its library
  functions stand for the real ones on the few texts the examples use: \<open>sample_int\<close>
  for \<open>int\<close> on strings of decimal digits and on \<open>-2\<close>, \<open>sample_loads\<close> for
  \<open>json.loads\<close> on five JSON texts (every other text counts as malformed there; the
  examples use \<open>{\<close> as the malformed one), \<open>sample_str\<close> names the class of an
  exception, and \<open>sample_repr\<close> puts a string between single quotes. The platform is
  one with 64-bit sizes and room for buffers below 64 KiB.
\<close>

definition codepoints :: "string \<Rightarrow> nat list" where
  "codepoints s = map of_char s"

definition ascii_bytes :: "string \<Rightarrow> 8 word list" where
  "ascii_bytes s = map of_char s"

definition sample_now :: datetime where
  "sample_now = \<lparr>isoformat = ''2024-01-01T00:00:00'', timestamp = ''1704067200.0''\<rparr>"

definition sample_int :: "string \<Rightarrow> exn + int" where
  "sample_int s =
     (if s = ''-2'' then Inr (- 2)
      else if s \<noteq> [] \<and> list_all (\<lambda>c. 48 \<le> (of_char c :: nat) \<and> (of_char c :: nat) \<le> 57) s
      then Inr (foldl (\<lambda>n c. 10 * n + (of_char c - 48)) 0 s)
      else Inl ValueError)"

definition sample_alloc :: "nat \<Rightarrow> allocation" where
  "sample_alloc n = (if n < 65536 then Allocated else OutOfMemory)"

definition good_login_text :: string where
  \<open>good_login_text = ''{"email":"coach@demo.com","password":"password123"}''\<close>

definition good_login :: json where
  "good_login = JObj [(''email'', JStr ''coach@demo.com''), (''password'', JStr ''password123'')]"

definition bad_login_text :: string where
  \<open>bad_login_text = ''{"email":"coach@demo.com","password":"guess"}''\<close>

definition bad_login :: json where
  "bad_login = JObj [(''email'', JStr ''coach@demo.com''), (''password'', JStr ''guess'')]"

definition list_login_text :: string where
  \<open>list_login_text = ''{"email":[]}''\<close>

definition list_login :: json where
  "list_login = JObj [(''email'', JArr [])]"

definition sample_loads :: "nat list \<Rightarrow> exn + json" where
  "sample_loads t =
     (if t = codepoints good_login_text then Inr good_login
      else if t = codepoints bad_login_text then Inr bad_login
      else if t = codepoints list_login_text then Inr list_login
      else if t = codepoints ''{}'' then Inr (JObj [])
      else if t = codepoints ''[]'' then Inr (JArr [])
      else Inl JSONDecodeError)"

definition sample_str :: "exn \<Rightarrow> string" where
  "sample_str e =
     (case e of
        TypeError \<Rightarrow> ''TypeError''
      | ValueError \<Rightarrow> ''ValueError''
      | OverflowError \<Rightarrow> ''OverflowError''
      | MemoryError \<Rightarrow> ''MemoryError''
      | AttributeError \<Rightarrow> ''AttributeError''
      | IndexError \<Rightarrow> ''IndexError''
      | UnicodeDecodeError \<Rightarrow> ''UnicodeDecodeError''
      | JSONDecodeError \<Rightarrow> ''JSONDecodeError''
      | RecursionError \<Rightarrow> ''RecursionError'')"

definition sample_repr :: "string \<Rightarrow> string" where
  "sample_repr s = CHR 0x27 # s @ [CHR 0x27]"

definition sample_env :: env where
  "sample_env =
     \<lparr>now = sample_now, int_of_str = sample_int, maxsize = 9223372036854775807,
      bytes_alloc = sample_alloc, json_loads = sample_loads, dumps_room = 990,
      str_of_exn = sample_str, repr_of_str = sample_repr,
      static_get = (\<lambda>p. Refused 404 ''File not found'')\<rparr>"

text \<open>
  A request of version HTTP/1.1 without a body, and a POST request of version HTTP/1.1
  with an ASCII body and the given Content-Length text.
\<close>

definition bare :: "string \<Rightarrow> string \<Rightarrow> request" where
  "bare m p =
     \<lparr>command = m, path = p, request_version = ''HTTP/1.1'', content_length = None, rfile = []\<rparr>"

definition post :: "string \<Rightarrow> string \<Rightarrow> string \<Rightarrow> request" where
  "post p len text =
     \<lparr>command = ''POST'', path = p, request_version = ''HTTP/1.1'', content_length = Some len,
      rfile = ascii_bytes text\<rparr>"

text \<open>Three register bodies for the examples of the register handler.\<close>

definition zero_name :: "(string \<times> json) list" where
  "zero_name = [(''name'', JInt 0), (''email'', JStr ''a@b.c''), (''password'', JStr ''secret'')]"

definition given_role :: "(string \<times> json) list" where
  "given_role =
     [(''name'', JStr ''Ann''), (''email'', JStr ''a@b.c''), (''password'', JStr ''secret''),
      (''role'', JStr ''athlete'')]"

definition no_role :: "(string \<times> json) list" where
  "no_role = [(''name'', JStr ''Ann''), (''email'', JStr ''a@b.c''), (''password'', JStr ''secret'')]"

section \<open>Lemmas\<close>

subsection \<open>Writing a response\<close>

lemma old_version_writes_no_head:
  assumes "request_version req = ''HTTP/0.9''"
  shows "send_response req code message c = c" and "send_header req k v c = c"
    and "base_end_headers req c = c" and "end_headers req c = c"
  using assms
  by (simp_all add: send_response_def send_header_def base_end_headers_def end_headers_def)

lemma end_headers_wfile:
  "request_version req \<noteq> ''HTTP/0.9'' \<Longrightarrow> status_line c = Some (code, message) \<Longrightarrow>
   end_headers req c = c\<lparr>status_line := None, headers_buffer := [],
                          wfile := wfile c @ [Head code message (headers_buffer c @ fixed_headers)]\<rparr>"
  by (simp add: end_headers_def base_end_headers_def send_header_def fixed_headers_def)

lemma on_wire_simps [simp]:
  "request_version req \<noteq> ''HTTP/0.9'' \<Longrightarrow> on_wire req chunks = chunks"
  "request_version req = ''HTTP/0.9'' \<Longrightarrow> on_wire req chunks = filter is_body chunks"
  by (simp_all add: on_wire_def)

lemma on_wire_append: "on_wire req xs @ on_wire req ys = on_wire req (xs @ ys)"
  by (simp add: on_wire_def)

lemma fresh_simps [simp]:
  "wfile fresh = []" "headers_buffer fresh = []" "status_line fresh = None"
  "wfile (fresh\<lparr>wfile := chunks\<rparr>) = chunks" "headers_buffer (fresh\<lparr>wfile := chunks\<rparr>) = []"
  by (simp_all add: fresh_def)

lemma json_dumps_shallow [simp]:
  "json_depth data \<le> 2 \<Longrightarrow> json_dumps env data = Inr data"
  by (simp add: json_dumps_def)

lemma send_json_response_fresh:
  "send_json_response env req data fresh =
     (case json_dumps env data of
        Inl e \<Rightarrow> Inl (e, fresh\<lparr>wfile := on_wire req json_head\<rparr>)
      | Inr text \<Rightarrow> Inr (fresh\<lparr>wfile := on_wire req (json_reply text)\<rparr>))"
proof (cases "request_version req = ''HTTP/0.9''")
  case True
  then show ?thesis
    by (simp add: send_json_response_def old_version_writes_no_head wfile_write_def fresh_def
          json_reply_def json_head_def split: sum.splits)
next
  case False
  then show ?thesis
    by (simp add: send_json_response_def wfile_write_def send_header_def send_response_def
          end_headers_wfile json_reply_def json_head_def fresh_def split: sum.splits)
qed

lemma wfile_send_error_after:
  "headers_buffer c = [] \<Longrightarrow>
   wfile (send_error req code message c) =
     wfile c @ on_wire req (if command req = ''HEAD''
                            then filter (\<lambda>c. \<not> is_body c) (error_reply code message)
                            else error_reply code message)"
proof (cases "request_version req = ''HTTP/0.9''")
  case True
  then show ?thesis
    by (simp add: send_error_def old_version_writes_no_head wfile_write_def error_reply_def
          Let_def)
next
  case False
  moreover assume "headers_buffer c = []"
  ultimately show ?thesis
    by (simp add: send_error_def wfile_write_def send_header_def send_response_def
          end_headers_wfile error_reply_def Let_def)
qed

lemma wfile_send_error:
  "wfile (send_error req code message fresh) =
     on_wire req (if command req = ''HEAD''
                  then filter (\<lambda>c. \<not> is_body c) (error_reply code message)
                  else error_reply code message)"
  by (simp add: wfile_send_error_after)

lemma wfile_send_error_page [simp]:
  "command req \<noteq> ''HEAD'' \<Longrightarrow>
   wfile (send_error req code message fresh) = on_wire req (error_reply code message)"
  by (simp add: wfile_send_error)

lemma read_json_sample:
  "read_json sample_env (post p ''51'' good_login_text) = Inr good_login"
  "read_json sample_env (post p ''45'' bad_login_text) = Inr bad_login"
  "read_json sample_env (post p ''12'' list_login_text) = Inr list_login"
  "read_json sample_env (post p ''2'' ''{}'') = Inr (JObj [])"
  "read_json sample_env (post p ''2'' ''[]'') = Inr (JArr [])"
  "read_json sample_env (post p ''1'' ''{'') = Inl JSONDecodeError"
  by (simp_all add: read_json_def sample_env_def post_def sample_int_def rfile_read_def
        sample_alloc_def ascii_bytes_def codepoints_def sample_loads_def good_login_text_def
        bad_login_text_def list_login_text_def cont_def second_ok_def tail6_def)

lemma post_simps [simp]:
  "command (post p len text) = ''POST''" "path (post p len text) = p"
  "request_version (post p len text) \<noteq> ''HTTP/0.9''"
  "command (bare m p) = m" "path (bare m p) = p" "content_length (bare m p) = None"
  "request_version (bare m p) \<noteq> ''HTTP/0.9''"
  by (simp_all add: post_def bare_def)

lemma prefix_api [simp]:
  "prefix ''/api/'' ''/api/auth/login''" "prefix ''/api/'' ''/api/auth/register''"
  "prefix ''/api/'' ''/api/training/sessions''" "prefix ''/api/'' ''/api/ai/analysis''"
  "prefix ''/api/'' ''/api/health''" "prefix ''/api/'' ''/api/config''"
  by simp_all

subsection \<open>Routing\<close>

lemma serve_POST_api:
  "command req = ''POST'' \<Longrightarrow> prefix ''/api/'' (path req) \<Longrightarrow>
   serve env req = wfile (handle_api_post env req fresh)"
  by (simp add: serve_def do_POST_def)

lemma handle_api_post_read_fails:
  "command req = ''POST'' \<Longrightarrow> read_json env req = Inl e \<Longrightarrow>
   wfile (handle_api_post env req fresh) = on_wire req (except_reply env e)"
  by (cases e) (simp_all add: handle_api_post_def except_reply_def)

lemma route_post_raises:
  "route_post env req data fresh = Inl (e, c) \<Longrightarrow> headers_buffer c = []"
  by (auto simp: route_post_def send_json_response_fresh split: if_splits sum.splits)

lemma handle_api_post_routed:
  assumes "command req = ''POST''" and "read_json env req = Inr data"
  shows "wfile (handle_api_post env req fresh) =
     (case route_post env req data fresh of
        Inr c \<Rightarrow> wfile c
      | Inl (e, c) \<Rightarrow> wfile c @ on_wire req (except_reply env e))"
proof (cases "route_post env req data fresh")
  case (Inr c)
  with assms show ?thesis by (simp add: handle_api_post_def)
next
  case (Inl raised)
  obtain e c where raised: "raised = (e, c)" by (cases raised)
  with Inl have "headers_buffer c = []" by (simp add: route_post_raises)
  with assms Inl raised show ?thesis
    by (cases e) (simp_all add: handle_api_post_def except_reply_def wfile_send_error_after)
qed

lemma route_post_login:
  "path req = ''/api/auth/login'' \<Longrightarrow>
   route_post env req data fresh =
     (case handle_login (now env) data of Inl e \<Rightarrow> Inl (e, fresh)
      | Inr response \<Rightarrow> send_json_response env req response fresh)"
  by (simp add: route_post_def)

lemma route_post_register:
  "path req = ''/api/auth/register'' \<Longrightarrow>
   route_post env req data fresh =
     (case handle_register (now env) data of Inl e \<Rightarrow> Inl (e, fresh)
      | Inr response \<Rightarrow> send_json_response env req response fresh)"
  by (simp add: route_post_def)

lemma route_post_training:
  "path req = ''/api/training/sessions'' \<Longrightarrow>
   route_post env req data fresh =
     (case handle_training_session (now env) data of Inl e \<Rightarrow> Inl (e, fresh)
      | Inr response \<Rightarrow> send_json_response env req response fresh)"
  by (simp add: route_post_def)

lemma route_post_analysis:
  "path req = ''/api/ai/analysis'' \<Longrightarrow>
   route_post env req data fresh =
     (case handle_ai_analysis (now env) data of Inl e \<Rightarrow> Inl (e, fresh)
      | Inr response \<Rightarrow> send_json_response env req response fresh)"
  by (simp add: route_post_def)

lemma route_post_other:
  "path req \<noteq> ''/api/auth/login'' \<Longrightarrow> path req \<noteq> ''/api/auth/register'' \<Longrightarrow>
   path req \<noteq> ''/api/training/sessions'' \<Longrightarrow> path req \<noteq> ''/api/ai/analysis'' \<Longrightarrow>
   route_post env req data fresh = Inr (send_error req 404 ''API endpoint not found'' fresh)"
  by (simp add: route_post_def)

lemma serve_GET_api:
  "command req = ''GET'' \<Longrightarrow> prefix ''/api/'' (path req) \<Longrightarrow>
   serve env req = wfile (handle_api_get env req fresh)"
  by (simp add: serve_def do_GET_def)

lemma wfile_handle_api_get:
  "command req = ''GET'' \<Longrightarrow>
   wfile (handle_api_get env req fresh) =
     on_wire req
       (if path req = ''/api/health'' then
          json_reply (JObj [(''status'', JStr ''healthy''),
                            (''timestamp'', JStr (isoformat (now env)))])
        else if path req = ''/api/config'' then json_reply api_config
        else error_reply 404 ''API endpoint not found'')"
  by (simp add: handle_api_get_def send_json_response_fresh api_config_def)

lemma read_json_no_length:
  "content_length req = None \<Longrightarrow> read_json env req = Inl TypeError"
  by (simp add: read_json_def)

lemma rfile_read_raises:
  "rfile_read env n bs = Inl e \<Longrightarrow> e \<in> {OverflowError, ValueError, MemoryError}"
  by (auto simp: rfile_read_def split: if_splits allocation.splits)

lemma falsy_values:
  "(\<not> truthy v) =
     (v \<in> {JNull, JBool False, JInt 0, JFloat (Finite 0), JFloat NegZero, JStr [], JArr [], JObj []})"
  by (cases v) (auto split: pyfloat.splits)

subsection \<open>The shape of an answer\<close>

lemma headed_json_reply [simp]: "headed (json_reply data)"
  by (simp add: headed_def json_reply_def fixed_headers_def)

lemma headed_error_reply [simp]: "headed (error_reply code message)"
  by (simp add: headed_def error_reply_def has_error_page_def fixed_headers_def)

lemma headed_error_head [simp]:
  "headed (filter (\<lambda>c. \<not> is_body c) (error_reply code message))"
  by (simp add: headed_def error_reply_def has_error_page_def fixed_headers_def)

lemma headed_except_reply [simp]: "headed (except_reply env e)"
  by (simp add: except_reply_def)

lemma headed_json_head [simp]: "headed (json_head @ except_reply env e)"
  using headed_except_reply [of env e]
  by (simp add: headed_def json_head_def fixed_headers_def)

lemma headed_json_head_error [simp]: "headed (json_head @ error_reply code message)"
  using headed_error_reply [of code message]
  by (simp add: headed_def json_head_def fixed_headers_def)

lemma fold_send_header:
  "request_version req \<noteq> ''HTTP/0.9'' \<Longrightarrow>
   fold (\<lambda>(k, v). send_header req k v) hs c = c\<lparr>headers_buffer := headers_buffer c @ hs\<rparr>"
  by (induction hs arbitrary: c) (auto simp: send_header_def)

lemma fold_send_header_old:
  "request_version req = ''HTTP/0.9'' \<Longrightarrow> fold (\<lambda>(k, v). send_header req k v) hs c = c"
  by (induction hs arbitrary: c) (auto simp: send_header_def)

lemma wfile_do_OPTIONS:
  "wfile (do_OPTIONS env req fresh) = on_wire req [Head 200 ''OK'' fixed_headers]"
  by (cases "request_version req = ''HTTP/0.9''")
     (simp_all add: do_OPTIONS_def old_version_writes_no_head send_response_def fresh_def
        end_headers_wfile)

lemma on_wire_headedI:
  "headed answer \<Longrightarrow> \<exists>a. headed a \<and> on_wire req answer = on_wire req a"
  by blast

lemma do_HEAD_on_wire:
  assumes "command req = ''HEAD''"
  shows "\<exists>answer. (headed answer \<or> answer = [] \<and> static_get env (path req) = Raised) \<and>
           wfile (do_HEAD env req fresh) = on_wire req answer"
proof (cases "static_get env (path req)")
  case Raised
  then have "wfile (do_HEAD env req fresh) = on_wire req []"
    by (simp add: do_HEAD_def send_head_def on_wire_def)
  with Raised show ?thesis by blast
next
  case (Refused code message)
  with assms have "wfile (do_HEAD env req fresh) =
      on_wire req (filter (\<lambda>c. \<not> is_body c) (error_reply code message))"
    by (simp add: do_HEAD_def send_head_def wfile_send_error)
  then show ?thesis using headed_error_head by blast
next
  case (Served code message hs f)
  let ?answer = "[Head code message (hs @ fixed_headers)]"
  have "wfile (do_HEAD env req fresh) = on_wire req ?answer"
  proof (cases "request_version req = ''HTTP/0.9''")
    case True
    with Served show ?thesis
      by (simp add: do_HEAD_def send_head_def old_version_writes_no_head fold_send_header_old)
  next
    case False
    with Served show ?thesis
      by (simp add: do_HEAD_def send_head_def fold_send_header send_response_def fresh_def
            end_headers_wfile)
  qed
  moreover have "headed ?answer"
    by (simp add: headed_def fixed_headers_def)
  ultimately show ?thesis by blast
qed

lemma static_do_GET_on_wire:
  assumes "command req = ''GET''"
  shows "\<exists>answer. (headed answer \<or> answer = [] \<and> static_get env (path req) = Raised) \<and>
           wfile (static_do_GET env req fresh) = on_wire req answer"
proof (cases "static_get env (path req)")
  case Raised
  then have "wfile (static_do_GET env req fresh) = on_wire req []"
    by (simp add: static_do_GET_def send_head_def on_wire_def)
  with Raised show ?thesis by blast
next
  case (Refused code message)
  with assms have "wfile (static_do_GET env req fresh) = on_wire req (error_reply code message)"
    by (simp add: static_do_GET_def send_head_def)
  then show ?thesis using headed_error_reply by blast
next
  case (Served code message hs f)
  let ?answer = "Head code message (hs @ fixed_headers) #
      (case f of None \<Rightarrow> [] | Some bytes \<Rightarrow> [Body (FileBody bytes)])"
  have "wfile (static_do_GET env req fresh) = on_wire req ?answer"
  proof (cases "request_version req = ''HTTP/0.9''")
    case True
    with Served show ?thesis
      by (simp add: static_do_GET_def send_head_def old_version_writes_no_head
            fold_send_header_old wfile_write_def split: option.splits)
  next
    case False
    with Served show ?thesis
      by (simp add: static_do_GET_def send_head_def fold_send_header send_response_def fresh_def
            end_headers_wfile wfile_write_def split: option.splits)
  qed
  moreover have "headed ?answer"
    by (simp add: headed_def fixed_headers_def split: option.splits)
  ultimately show ?thesis by blast
qed

lemma handle_api_get_on_wire:
  assumes "command req = ''GET''"
  shows "\<exists>answer. headed answer \<and> wfile (handle_api_get env req fresh) = on_wire req answer"
  using assms by (auto simp: wfile_handle_api_get intro!: on_wire_headedI)

lemma send_json_response_on_wire:
  "\<exists>answer. headed answer \<and>
     (case send_json_response env req response fresh of
        Inr c \<Rightarrow> wfile c
      | Inl (e, c) \<Rightarrow> wfile c @ on_wire req (except_reply env e)) = on_wire req answer"
  by (cases "json_dumps env response")
     (auto simp: send_json_response_fresh on_wire_append intro!: on_wire_headedI)

lemma route_post_on_wire:
  assumes "command req = ''POST''"
  shows "\<exists>answer. headed answer \<and>
           (case route_post env req data fresh of
              Inr c \<Rightarrow> wfile c
            | Inl (e, c) \<Rightarrow> wfile c @ on_wire req (except_reply env e)) = on_wire req answer"
proof -
  have raised: "\<exists>answer. headed answer \<and>
      (case (case handled of Inl e \<Rightarrow> Inl (e, fresh)
             | Inr response \<Rightarrow> send_json_response env req response fresh) of
         Inr c \<Rightarrow> wfile c
       | Inl (e, c) \<Rightarrow> wfile c @ on_wire req (except_reply env e)) = on_wire req answer"
    for handled
    using send_json_response_on_wire
    by (cases handled) (auto intro!: on_wire_headedI)
  from assms show ?thesis
    unfolding route_post_def
    by (auto simp: raised intro!: on_wire_headedI)
qed

lemma handle_api_post_on_wire:
  assumes "command req = ''POST''"
  shows "\<exists>answer. headed answer \<and> wfile (handle_api_post env req fresh) = on_wire req answer"
proof (cases "read_json env req")
  case (Inl e)
  with assms show ?thesis
    by (auto simp: handle_api_post_read_fails intro!: on_wire_headedI)
next
  case (Inr data)
  with assms show ?thesis
    using route_post_on_wire [of req env data] by (simp add: handle_api_post_routed)
qed

lemma serve_on_wire:
  "\<exists>answer.
     (headed answer \<or>
      answer = [] \<and> static_get env (path req) = Raised \<and>
      (command req = ''HEAD'' \<or> command req = ''GET'' \<and> \<not> prefix ''/api/'' (path req))) \<and>
     serve env req = on_wire req answer"
proof -
  consider (get) "command req = ''GET''" | (post) "command req = ''POST''"
    | (options) "command req = ''OPTIONS''" | (head) "command req = ''HEAD''"
    | (other) "command req \<notin> {''GET'', ''POST'', ''OPTIONS'', ''HEAD''}"
    by auto
  then show ?thesis
  proof cases
    case get
    show ?thesis
    proof (cases "prefix ''/api/'' (path req)")
      case True
      with get handle_api_get_on_wire [of req env] show ?thesis
        by (auto simp: serve_def do_GET_def)
    next
      case False
      with get static_do_GET_on_wire [of req env] show ?thesis
        by (auto simp: serve_def do_GET_def)
    qed
  next
    case post
    show ?thesis
    proof (cases "prefix ''/api/'' (path req)")
      case True
      with post handle_api_post_on_wire [of req env] show ?thesis
        by (auto simp: serve_def do_POST_def)
    next
      case False
      with post have "serve env req = on_wire req (error_reply 404 ''Not Found'')"
        by (simp add: serve_def do_POST_def)
      then show ?thesis using headed_error_reply by blast
    qed
  next
    case options
    then have "serve env req = on_wire req [Head 200 ''OK'' fixed_headers]"
      by (simp add: serve_def wfile_do_OPTIONS)
    moreover have "headed [Head 200 ''OK'' fixed_headers]"
      by (simp add: headed_def fixed_headers_def)
    ultimately show ?thesis by blast
  next
    case head
    with do_HEAD_on_wire [of req env] show ?thesis
      by (auto simp: serve_def)
  next
    case other
    then have "serve env req =
        on_wire req (error_reply 501
          (''Unsupported method ('' @ repr_of_str env (command req) @ '')''))"
      by (simp add: serve_def)
    then show ?thesis using headed_error_reply by blast
  qed
qed

lemma refuse_on_wire:
  "\<exists>answer. headed answer \<and> refuse req code message = on_wire req answer"
  by (cases "command req = ''HEAD''")
     (auto simp: refuse_def wfile_send_error intro!: on_wire_headedI)

lemma headedE:
  assumes "headed answer"
  shows "\<exists>code message hs rest. answer = Head code message hs # rest"
    and "Head code message hs \<in> set answer \<Longrightarrow> set fixed_headers \<subseteq> set hs"
proof -
  from assms obtain ch rest where "answer = ch # rest" and "\<not> is_body ch"
    by (cases answer) (auto simp: headed_def)
  then show "\<exists>code message hs rest. answer = Head code message hs # rest"
    by (cases ch) auto
  assume "Head code message hs \<in> set answer"
  with assms have "carries (Head code message hs)"
    by (auto simp: headed_def list_all_iff)
  then show "set fixed_headers \<subseteq> set hs"
    by (auto simp: list_all_iff)
qed

lemma on_wire_headed:
  assumes "headed a \<or> a = []"
  shows "Head code message hs \<in> set (on_wire req a) \<Longrightarrow> set fixed_headers \<subseteq> set hs"
    and "request_version req \<noteq> ''HTTP/0.9'' \<Longrightarrow> on_wire req a \<noteq> [] \<Longrightarrow>
         \<exists>code message hs rest. on_wire req a = Head code message hs # rest"
    and "request_version req = ''HTTP/0.9'' \<Longrightarrow> list_all is_body (on_wire req a)"
proof -
  assume "Head code message hs \<in> set (on_wire req a)"
  then have "Head code message hs \<in> set a"
    by (auto simp: on_wire_def split: if_splits)
  with assms show "set fixed_headers \<subseteq> set hs"
    using headedE(2) [of a] by auto
next
  assume "request_version req \<noteq> ''HTTP/0.9''" and "on_wire req a \<noteq> []"
  with assms show "\<exists>code message hs rest. on_wire req a = Head code message hs # rest"
    using headedE(1) [of a] by auto
next
  assume "request_version req = ''HTTP/0.9''"
  then show "list_all is_body (on_wire req a)"
    by (simp add: list_all_iff)
qed

lemma login_success_local:
  assumes "(email, u) \<in> set demo_users"
  shows "\<exists>local_part domain. email = local_part @ ''@'' @ domain \<and> CHR ''@'' \<notin> set local_part \<and>
     map_of demo_users email = Some u \<and> password u = ''password123'' \<and>
     first_item (py_split CHR ''@'' email) = Inr local_part"
proof -
  from assms consider
      (athlete) "email = ''athlete@demo.com''"
        "u = \<lparr>password = ''password123'', role = ''athlete'', name = ''Demo Athlete''\<rparr>"
    | (coach) "email = ''coach@demo.com''"
        "u = \<lparr>password = ''password123'', role = ''coach'', name = ''Demo Coach''\<rparr>"
    | (admin) "email = ''admin@demo.com''"
        "u = \<lparr>password = ''password123'', role = ''admin'', name = ''Demo Admin''\<rparr>"
    by (auto simp: demo_users_def)
  then show ?thesis
  proof cases
    case athlete
    show ?thesis unfolding athlete
      by (rule exI [of _ "''athlete''"], rule exI [of _ "''demo.com''"])
         (simp add: demo_users_def first_item_def)
  next
    case coach
    show ?thesis unfolding coach
      by (rule exI [of _ "''coach''"], rule exI [of _ "''demo.com''"])
         (simp add: demo_users_def first_item_def)
  next
    case admin
    show ?thesis unfolding admin
      by (rule exI [of _ "''admin''"], rule exI [of _ "''demo.com''"])
         (simp add: demo_users_def first_item_def)
  qed
qed

section \<open>The claims\<close>

text \<open>
  In the theorems below an answer is stated as the handler sends it, a head and a
  body, under \<open>on_wire\<close>: for every request version but HTTP/0.9 that is the answer
  itself, and for HTTP/0.9 it is the answer without its head.
\<close>

subsection \<open>C1: the three demo accounts log in\<close>

text \<open>
  C1. For each of the three demo accounts, a POST to \<open>/api/auth/login\<close> whose body
  parses to an object with that email and the password \<open>password123\<close> is answered
  with status 200 and a JSON body with \<open>success\<close> true and a user object whose role
  (and name) are those of the account in the demo table and whose id is \<open>user_\<close>
  followed by the part of the email before the first \<open>@\<close>.
\<close>

theorem demo_login_succeeds:
  assumes user: "(email, u) \<in> set demo_users"
    and req: "command req = ''POST''" "path req = ''/api/auth/login''"
    and body: "read_json env req = Inr data"
    and fields: "py_get data ''email'' (JStr []) = Inr (JStr email)"
      "py_get data ''password'' (JStr []) = Inr (JStr ''password123'')"
  shows "\<exists>local_part domain result.
           email = local_part @ ''@'' @ domain \<and> CHR ''@'' \<notin> set local_part \<and>
           result = JObj [(''success'', JBool True),
                          (''user'', JObj [(''id'', JStr (''user_'' @ local_part)),
                                           (''email'', JStr email),
                                           (''name'', JStr (name u)),
                                           (''role'', JStr (role u))]),
                          (''token'', JStr (''demo_token_'' @ timestamp (now env)))] \<and>
           handle_login (now env) data = Inr result \<and>
           serve env req = on_wire req (json_reply result)"
proof -
  from login_success_local [OF user] obtain local_part domain where
    parts: "email = local_part @ ''@'' @ domain" "CHR ''@'' \<notin> set local_part" and
    entry: "map_of demo_users email = Some u" "password u = ''password123''" and
    split: "first_item (py_split CHR ''@'' email) = Inr local_part"
    by blast
  let ?result = "JObj [(''success'', JBool True),
                       (''user'', JObj [(''id'', JStr (''user_'' @ local_part)),
                                        (''email'', JStr email),
                                        (''name'', JStr (name u)),
                                        (''role'', JStr (role u))]),
                       (''token'', JStr (''demo_token_'' @ timestamp (now env)))]"
  have login: "handle_login (now env) data = Inr ?result"
    by (simp add: handle_login_def fields entry login_success_def split)
  have "serve env req = on_wire req (json_reply ?result)"
    by (simp add: serve_POST_api req handle_api_post_routed [OF req(1) body] route_post_login
          login send_json_response_fresh)
  with parts login show ?thesis by blast
qed

text \<open>The coach account, sent as a JSON text of 51 bytes.\<close>

theorem demo_login_succeeds_witness:
  "(''coach@demo.com'', \<lparr>password = ''password123'', role = ''coach'', name = ''Demo Coach''\<rparr>)
     \<in> set demo_users \<and>
   handle_login sample_now good_login =
     Inr (JObj [(''success'', JBool True),
                (''user'', JObj [(''id'', JStr ''user_coach''),
                                 (''email'', JStr ''coach@demo.com''),
                                 (''name'', JStr ''Demo Coach''),
                                 (''role'', JStr ''coach'')]),
                (''token'', JStr ''demo_token_1704067200.0'')]) \<and>
   serve sample_env (post ''/api/auth/login'' ''51'' good_login_text) =
     json_reply
       (JObj [(''success'', JBool True),
              (''user'', JObj [(''id'', JStr ''user_coach''),
                               (''email'', JStr ''coach@demo.com''),
                               (''name'', JStr ''Demo Coach''),
                               (''role'', JStr ''coach'')]),
              (''token'', JStr ''demo_token_1704067200.0'')])"
proof -
  have user: "(''coach@demo.com'',
      \<lparr>password = ''password123'', role = ''coach'', name = ''Demo Coach''\<rparr>) \<in> set demo_users"
    by (simp add: demo_users_def)
  have req: "command (post ''/api/auth/login'' ''51'' good_login_text) = ''POST''"
    "path (post ''/api/auth/login'' ''51'' good_login_text) = ''/api/auth/login''"
    by simp_all
  have fields: "py_get good_login ''email'' (JStr []) = Inr (JStr ''coach@demo.com'')"
    "py_get good_login ''password'' (JStr []) = Inr (JStr ''password123'')"
    by (simp_all add: good_login_def)
  from demo_login_succeeds [OF user req read_json_sample(1) fields]
  obtain local_part domain result where
    login: "handle_login (now sample_env) good_login = Inr result" and
    reply: "serve sample_env (post ''/api/auth/login'' ''51'' good_login_text) = json_reply result"
    by auto
  have "handle_login (now sample_env) good_login =
     Inr (JObj [(''success'', JBool True),
                (''user'', JObj [(''id'', JStr ''user_coach''),
                                 (''email'', JStr ''coach@demo.com''),
                                 (''name'', JStr ''Demo Coach''),
                                 (''role'', JStr ''coach'')]),
                (''token'', JStr ''demo_token_1704067200.0'')])"
    by (simp add: handle_login_def good_login_def demo_users_def login_success_def
          first_item_def sample_now_def sample_env_def)
  with user login reply show ?thesis by (simp add: sample_env_def)
qed

subsection \<open>C2: a rejected login is a 200 answer\<close>

text \<open>
  As the claim is written it covers every email that is not a key of the table. An
  email that is a JSON array (or object) is such an email, but \<open>email in demo_users\<close>
  cannot hash it: the handler raises TypeError and the answer is a 500.
\<close>

theorem login_unhashable_email:
  "py_get list_login ''email'' (JStr []) = Inr (JArr []) \<and>
   JArr [] \<notin> JStr ` fst ` set demo_users \<and>
   handle_login sample_now list_login = Inl TypeError \<and>
   serve sample_env (post ''/api/auth/login'' ''12'' list_login_text) =
     error_reply 500 ''Internal server error: TypeError''"
proof -
  have login: "handle_login (now sample_env) list_login = Inl TypeError"
    by (simp add: handle_login_def list_login_def)
  have req: "command (post ''/api/auth/login'' ''12'' list_login_text) = ''POST''"
    "path (post ''/api/auth/login'' ''12'' list_login_text) = ''/api/auth/login''"
    by simp_all
  have "serve sample_env (post ''/api/auth/login'' ''12'' list_login_text) =
     except_reply sample_env TypeError"
    by (simp add: serve_POST_api req handle_api_post_routed [OF req(1) read_json_sample(3)]
          route_post_login login)
  also have "\<dots> = error_reply 500 ''Internal server error: TypeError''"
    by (simp add: except_reply_def sample_env_def sample_str_def)
  finally show ?thesis
    using login by (auto simp: list_login_def sample_env_def)
qed

text \<open>
  C2 (amended). For every login request whose body parses to an object and whose email
  value is hashable (anything but an array or an object): if no entry of the demo table
  has that email as its key and that password as its password, the login handler returns
  exactly \<open>{success: false, error: "Invalid credentials"}\<close>, and the answer carries it
  with status 200.
\<close>

theorem login_rejected:
  assumes req: "command req = ''POST''" "path req = ''/api/auth/login''"
    and body: "read_json env req = Inr data"
    and fields: "py_get data ''email'' (JStr []) = Inr e"
      "py_get data ''password'' (JStr []) = Inr p"
    and hash: "hashable e"
    and wrong: "\<forall>(k, u) \<in> set demo_users. e \<noteq> JStr k \<or> p \<noteq> JStr (password u)"
  shows "handle_login (now env) data = Inr invalid_credentials \<and>
         serve env req = on_wire req (json_reply invalid_credentials)"
proof -
  have login: "handle_login (now env) data = Inr invalid_credentials"
  proof (cases e)
    case (JStr s)
    show ?thesis
    proof (cases "map_of demo_users s")
      case None
      with JStr show ?thesis by (simp add: handle_login_def fields)
    next
      case (Some u)
      then have "(s, u) \<in> set demo_users" by (rule map_of_SomeD)
      with wrong JStr have "p \<noteq> JStr (password u)" by auto
      with JStr Some show ?thesis by (auto simp: handle_login_def fields)
    qed
  qed (use hash in \<open>simp_all add: handle_login_def fields\<close>)
  then have "serve env req = on_wire req (json_reply invalid_credentials)"
    by (simp add: serve_POST_api req handle_api_post_routed [OF req(1) body] route_post_login
          send_json_response_fresh invalid_credentials_def)
  with login show ?thesis ..
qed

text \<open>A known email with a wrong password.\<close>

theorem login_rejected_witness:
  "handle_login sample_now bad_login = Inr invalid_credentials \<and>
   serve sample_env (post ''/api/auth/login'' ''45'' bad_login_text) =
     json_reply (JObj [(''success'', JBool False), (''error'', JStr ''Invalid credentials'')])"
proof -
  have req: "command (post ''/api/auth/login'' ''45'' bad_login_text) = ''POST''"
    "path (post ''/api/auth/login'' ''45'' bad_login_text) = ''/api/auth/login''"
    by simp_all
  have fields: "py_get bad_login ''email'' (JStr []) = Inr (JStr ''coach@demo.com'')"
    "py_get bad_login ''password'' (JStr []) = Inr (JStr ''guess'')"
    by (simp_all add: bad_login_def)
  have hash: "hashable (JStr ''coach@demo.com'')" by simp
  have wrong: "\<forall>(k, u) \<in> set demo_users.
      JStr ''coach@demo.com'' \<noteq> JStr k \<or> JStr ''guess'' \<noteq> JStr (password u)"
    by (simp add: demo_users_def)
  from login_rejected [OF req read_json_sample(2) fields hash wrong]
  show ?thesis by (simp add: sample_env_def invalid_credentials_def)
qed

subsection \<open>C3: which body failures are a 400\<close>

text \<open>
  A body that is not valid UTF-8 fails in \<open>decode\<close>, before \<open>json.loads\<close> runs.
  UnicodeDecodeError is not a JSONDecodeError, so the second \<open>except\<close> clause answers:
  the single byte FF gets a 500, not a 400. So does a Content-Length of \<open>-2\<close>, for
  which \<open>rfile.read\<close> raises ValueError.
\<close>

theorem undecodable_body_is_500:
  "utf8_decode [0xFF] = None \<and>
   serve sample_env
     \<lparr>command = ''POST'', path = ''/api/auth/login'', request_version = ''HTTP/1.1'',
      content_length = Some ''1'', rfile = [0xFF]\<rparr> =
     error_reply 500 ''Internal server error: UnicodeDecodeError'' \<and>
   error_reply 500 ''Internal server error: UnicodeDecodeError'' \<noteq> error_reply 400 ''Invalid JSON'' \<and>
   serve sample_env (post ''/api/auth/login'' ''-2'' ''{}'') =
     error_reply 500 ''Internal server error: ValueError''"
proof -
  let ?bad = "\<lparr>command = ''POST'', path = ''/api/auth/login'', request_version = ''HTTP/1.1'',
                content_length = Some ''1'', rfile = [0xFF]\<rparr>"
  have "read_json sample_env ?bad = Inl UnicodeDecodeError"
    by (simp add: read_json_def sample_env_def sample_int_def rfile_read_def sample_alloc_def)
  then have "serve sample_env ?bad = except_reply sample_env UnicodeDecodeError"
    by (simp add: serve_POST_api handle_api_post_read_fails)
  moreover have "read_json sample_env (post ''/api/auth/login'' ''-2'' ''{}'') = Inl ValueError"
    by (simp add: read_json_def sample_env_def sample_int_def rfile_read_def post_def)
  then have "serve sample_env (post ''/api/auth/login'' ''-2'' ''{}'') =
      except_reply sample_env ValueError"
    by (simp add: serve_POST_api handle_api_post_read_fails)
  ultimately show ?thesis
    by (simp add: except_reply_def sample_env_def sample_str_def error_reply_def has_error_page_def)
qed

text \<open>
  C3 (amended). For every POST to a path under \<open>/api/\<close> whose Content-Length header
  reads as an integer \<open>n\<close>: if \<open>rfile.read(n)\<close> returns bytes that decode as UTF-8
  and \<open>json.loads\<close> rejects the text with JSONDecodeError, the answer is a 400 with the
  reason \<open>Invalid JSON\<close>; if the bytes read do not decode as UTF-8, the answer is a
  500 whose reason starts with \<open>Internal server error: \<close>; and so it is if the read
  itself raises, which is with ValueError, OverflowError or MemoryError. The read raises
  for every \<open>n\<close> below \<open>-1\<close>, and it returns the first \<open>n\<close> bytes of the stream
  (all of it, if it is shorter) for an \<open>n\<close> from 0 up to the size limit whose buffer
  can be allocated.
\<close>

theorem post_body_errors:
  assumes req: "command req = ''POST''" "prefix ''/api/'' (path req)"
    and len: "content_length req = Some text" "int_of_str env text = Inr n"
  shows "(\<forall>post_data decoded.
            rfile_read env n (rfile req) = Inr post_data \<and>
            utf8_decode post_data = Some decoded \<and>
            json_loads env decoded = Inl JSONDecodeError \<longrightarrow>
            serve env req = on_wire req (error_reply 400 ''Invalid JSON'')) \<and>
         (\<forall>post_data.
            rfile_read env n (rfile req) = Inr post_data \<and> utf8_decode post_data = None \<longrightarrow>
            serve env req =
              on_wire req
                (error_reply 500 (''Internal server error: '' @ str_of_exn env UnicodeDecodeError))) \<and>
         (\<forall>e. rfile_read env n (rfile req) = Inl e \<longrightarrow>
            e \<in> {ValueError, OverflowError, MemoryError} \<and>
            serve env req =
              on_wire req (error_reply 500 (''Internal server error: '' @ str_of_exn env e))) \<and>
         (n < - 1 \<longrightarrow> (\<exists>e. rfile_read env n (rfile req) = Inl e)) \<and>
         (0 \<le> n \<and> n \<le> maxsize env \<and> bytes_alloc env (nat n) = Allocated \<longrightarrow>
            rfile_read env n (rfile req) = Inr (take (nat n) (rfile req)))"
proof (intro conjI allI impI)
  fix post_data decoded
  assume "rfile_read env n (rfile req) = Inr post_data \<and>
          utf8_decode post_data = Some decoded \<and>
          json_loads env decoded = Inl JSONDecodeError"
  then have "read_json env req = Inl JSONDecodeError"
    by (simp add: read_json_def len)
  then show "serve env req = on_wire req (error_reply 400 ''Invalid JSON'')"
    by (simp add: serve_POST_api req handle_api_post_read_fails except_reply_def)
next
  fix post_data
  assume "rfile_read env n (rfile req) = Inr post_data \<and> utf8_decode post_data = None"
  then have "read_json env req = Inl UnicodeDecodeError"
    by (simp add: read_json_def len)
  then show "serve env req =
      on_wire req
        (error_reply 500 (''Internal server error: '' @ str_of_exn env UnicodeDecodeError))"
    by (simp add: serve_POST_api req handle_api_post_read_fails except_reply_def)
next
  fix e
  assume raised: "rfile_read env n (rfile req) = Inl e"
  then show "e \<in> {ValueError, OverflowError, MemoryError}"
    using rfile_read_raises by blast
  then have "e \<noteq> JSONDecodeError" by auto
  moreover from raised have "read_json env req = Inl e"
    by (simp add: read_json_def len)
  ultimately show "serve env req =
      on_wire req (error_reply 500 (''Internal server error: '' @ str_of_exn env e))"
    by (simp add: serve_POST_api req handle_api_post_read_fails except_reply_def)
next
  assume "n < - 1"
  then show "\<exists>e. rfile_read env n (rfile req) = Inl e"
    by (simp add: rfile_read_def)
next
  assume "0 \<le> n \<and> n \<le> maxsize env \<and> bytes_alloc env (nat n) = Allocated"
  then show "rfile_read env n (rfile req) = Inr (take (nat n) (rfile req))"
    by (simp add: rfile_read_def)
qed

text \<open>
  The text \<open>{\<close> for the first part, the byte FF for the second, and the Content-Length
  \<open>-2\<close> for the third.
\<close>

theorem post_body_errors_witness:
  "utf8_decode (ascii_bytes ''{'') = Some (codepoints ''{'') \<and>
   json_loads sample_env (codepoints ''{'') = Inl JSONDecodeError \<and>
   serve sample_env (post ''/api/auth/login'' ''1'' ''{'') = error_reply 400 ''Invalid JSON'' \<and>
   utf8_decode [0xFF] = None \<and>
   serve sample_env
     \<lparr>command = ''POST'', path = ''/api/auth/login'', request_version = ''HTTP/1.1'',
      content_length = Some ''1'', rfile = [0xFF]\<rparr> =
     error_reply 500 ''Internal server error: UnicodeDecodeError'' \<and>
   rfile_read sample_env (- 2) (ascii_bytes ''{}'') = Inl ValueError \<and>
   serve sample_env (post ''/api/auth/login'' ''-2'' ''{}'') =
     error_reply 500 ''Internal server error: ValueError''"
proof -
  let ?bad = "\<lparr>command = ''POST'', path = ''/api/auth/login'', request_version = ''HTTP/1.1'',
                content_length = Some ''1'', rfile = [0xFF]\<rparr>"
  let ?short = "post ''/api/auth/login'' ''1'' ''{''"
  let ?negative = "post ''/api/auth/login'' ''-2'' ''{}''"
  have one: "int_of_str sample_env ''1'' = Inr 1"
    and minus_two: "int_of_str sample_env ''-2'' = Inr (- 2)"
    by (simp_all add: sample_env_def sample_int_def)
  have read_bad: "rfile_read sample_env 1 (rfile ?bad) = Inr [0xFF]"
    and read_short: "rfile_read sample_env 1 (rfile ?short) = Inr (ascii_bytes ''{'')"
    and read_negative: "rfile_read sample_env (- 2) (rfile ?negative) = Inl ValueError"
    by (simp_all add: rfile_read_def sample_env_def sample_alloc_def post_def ascii_bytes_def)
  have decodable: "utf8_decode (ascii_bytes ''{'') = Some (codepoints ''{'')"
    and undecodable: "utf8_decode [0xFF] = None"
    by (simp_all add: ascii_bytes_def codepoints_def)
  have malformed: "json_loads sample_env (codepoints ''{'') = Inl JSONDecodeError"
    by (simp add: sample_env_def sample_loads_def codepoints_def good_login_text_def
          bad_login_text_def list_login_text_def)
  have "serve sample_env ?short = error_reply 400 ''Invalid JSON''"
    using post_body_errors [of ?short "''1''" sample_env 1] one read_short decodable malformed
    by (simp add: post_def)
  moreover have "serve sample_env ?bad =
      error_reply 500 (''Internal server error: '' @ str_of_exn sample_env UnicodeDecodeError)"
    using post_body_errors [of ?bad "''1''" sample_env 1] one read_bad undecodable by simp
  moreover have "serve sample_env ?negative =
      error_reply 500 (''Internal server error: '' @ str_of_exn sample_env ValueError)"
    using post_body_errors [of ?negative "''-2''" sample_env "- 2"] minus_two read_negative
    by (simp add: post_def)
  ultimately show ?thesis
    using malformed decodable undecodable read_negative
    by (simp add: sample_env_def sample_str_def post_def)
qed

subsection \<open>C4: registration\<close>

text \<open>
  \<open>not name\<close> tests truthiness, not emptiness of a string: a name that is the number
  0 is present and is not the empty string, and the handler still answers
  \<open>Missing required fields\<close>. And the role of the answer is \<open>athlete\<close> also when the
  request supplies that very role, so the role is not \<open>athlete\<close> only when the field
  is absent.
\<close>

theorem register_zero_name:
  "map_of zero_name ''name'' = Some (JInt 0) \<and> JInt 0 \<noteq> JStr [] \<and>
   map_of zero_name ''email'' = Some (JStr ''a@b.c'') \<and>
   map_of zero_name ''password'' = Some (JStr ''secret'') \<and>
   handle_register sample_now (JObj zero_name) = Inr missing_fields \<and>
   map_of given_role ''role'' = Some (JStr ''athlete'') \<and>
   handle_register sample_now (JObj given_role) =
     Inr (JObj [(''success'', JBool True),
                (''user'', JObj [(''id'', JStr ''user_1704067200.0''),
                                 (''name'', JStr ''Ann''),
                                 (''email'', JStr ''a@b.c''),
                                 (''role'', JStr ''athlete'')])])"
  by (simp add: zero_name_def given_role_def handle_register_def sample_now_def)

text \<open>
  C4 (amended). For every register request whose body is an object: if any of name,
  email or password is missing or falsy (null, false, a zero, the empty string, an empty
  array or an empty object), the handler returns
  \<open>{success: false, error: "Missing required fields"}\<close>; otherwise it returns
  \<open>success\<close> true with a user object that echoes name, email and role as they were
  sent, where the role is \<open>athlete\<close> when the request has no role field and the
  value of that field when it has one.
\<close>

theorem register_result:
  "((\<exists>k \<in> {''name'', ''email'', ''password''}.
       map_of kv k = None \<or> (\<exists>v. map_of kv k = Some v \<and> \<not> truthy v)) \<longrightarrow>
      handle_register now' (JObj kv) = Inr missing_fields) \<and>
   (\<forall>nm em pw.
      map_of kv ''name'' = Some nm \<and> map_of kv ''email'' = Some em \<and>
      map_of kv ''password'' = Some pw \<and> truthy nm \<and> truthy em \<and> truthy pw \<longrightarrow>
      handle_register now' (JObj kv) =
        Inr (JObj [(''success'', JBool True),
                   (''user'', JObj [(''id'', JStr (''user_'' @ timestamp now')),
                                    (''name'', nm),
                                    (''email'', em),
                                    (''role'', case map_of kv ''role'' of
                                                 None \<Rightarrow> JStr ''athlete'' | Some r \<Rightarrow> r)])])) \<and>
   (\<forall>v. (\<not> truthy v) =
      (v \<in> {JNull, JBool False, JInt 0, JFloat (Finite 0), JFloat NegZero,
            JStr [], JArr [], JObj []}))"
proof (intro conjI allI impI)
  assume "\<exists>k \<in> {''name'', ''email'', ''password''}.
            map_of kv k = None \<or> (\<exists>v. map_of kv k = Some v \<and> \<not> truthy v)"
  then show "handle_register now' (JObj kv) = Inr missing_fields"
    by (auto simp: handle_register_def)
next
  fix nm em pw
  assume "map_of kv ''name'' = Some nm \<and> map_of kv ''email'' = Some em \<and>
      map_of kv ''password'' = Some pw \<and> truthy nm \<and> truthy em \<and> truthy pw"
  then show "handle_register now' (JObj kv) =
        Inr (JObj [(''success'', JBool True),
                   (''user'', JObj [(''id'', JStr (''user_'' @ timestamp now')),
                                    (''name'', nm),
                                    (''email'', em),
                                    (''role'', case map_of kv ''role'' of
                                                 None \<Rightarrow> JStr ''athlete'' | Some r \<Rightarrow> r)])])"
    by (simp add: handle_register_def)
next
  fix v
  show "(\<not> truthy v) =
      (v \<in> {JNull, JBool False, JInt 0, JFloat (Finite 0), JFloat NegZero,
            JStr [], JArr [], JObj []})"
    by (rule falsy_values)
qed

text \<open>A null email, a request without a role, and a request whose role is a number.\<close>

theorem register_result_witness:
  "handle_register sample_now (JObj [(''name'', JStr ''Ann''), (''email'', JNull)]) =
     Inr missing_fields \<and>
   handle_register sample_now (JObj no_role) =
     Inr (JObj [(''success'', JBool True),
                (''user'', JObj [(''id'', JStr ''user_1704067200.0''),
                                 (''name'', JStr ''Ann''),
                                 (''email'', JStr ''a@b.c''),
                                 (''role'', JStr ''athlete'')])]) \<and>
   handle_register sample_now (JObj ((''role'', JInt 7) # no_role)) =
     Inr (JObj [(''success'', JBool True),
                (''user'', JObj [(''id'', JStr ''user_1704067200.0''),
                                 (''name'', JStr ''Ann''),
                                 (''email'', JStr ''a@b.c''),
                                 (''role'', JInt 7)])])"
proof -
  have "handle_register sample_now (JObj [(''name'', JStr ''Ann''), (''email'', JNull)]) =
      Inr missing_fields"
    using register_result [of "[(''name'', JStr ''Ann''), (''email'', JNull)]" sample_now]
    by simp
  moreover have "handle_register sample_now (JObj no_role) =
     Inr (JObj [(''success'', JBool True),
                (''user'', JObj [(''id'', JStr ''user_1704067200.0''),
                                 (''name'', JStr ''Ann''),
                                 (''email'', JStr ''a@b.c''),
                                 (''role'', JStr ''athlete'')])])"
    using register_result [of no_role sample_now]
    by (simp add: no_role_def sample_now_def)
  moreover have "handle_register sample_now (JObj ((''role'', JInt 7) # no_role)) =
     Inr (JObj [(''success'', JBool True),
                (''user'', JObj [(''id'', JStr ''user_1704067200.0''),
                                 (''name'', JStr ''Ann''),
                                 (''email'', JStr ''a@b.c''),
                                 (''role'', JInt 7)])])"
    using register_result [of "(''role'', JInt 7) # no_role" sample_now]
    by (simp add: no_role_def sample_now_def)
  ultimately show ?thesis by blast
qed

subsection \<open>C5: unmatched routes\<close>

text \<open>
  \<open>handle_api_post\<close> reads and parses the body before it looks at the path. A POST
  to an unknown path under \<open>/api/\<close> without a Content-Length header is answered 500,
  one with a malformed body 400, and \<open>do_OPTIONS\<close> answers 200 for every path.
\<close>

theorem unmatched_post_without_length:
  "prefix ''/api/'' ''/api/users'' \<and>
   ''/api/users'' \<notin> {''/api/health'', ''/api/config'', ''/api/auth/login'',
       ''/api/auth/register'', ''/api/training/sessions'', ''/api/ai/analysis''} \<and>
   serve sample_env
     \<lparr>command = ''POST'', path = ''/api/users'', request_version = ''HTTP/1.1'',
      content_length = None, rfile = []\<rparr> =
     error_reply 500 ''Internal server error: TypeError'' \<and>
   serve sample_env (post ''/api/users'' ''1'' ''{'') = error_reply 400 ''Invalid JSON'' \<and>
   serve sample_env
     \<lparr>command = ''OPTIONS'', path = ''/api/users'', request_version = ''HTTP/1.1'',
      content_length = None, rfile = []\<rparr> =
     [Head 200 ''OK'' fixed_headers]"
proof -
  let ?post = "\<lparr>command = ''POST'', path = ''/api/users'', request_version = ''HTTP/1.1'',
                 content_length = None, rfile = []\<rparr>"
  let ?options = "\<lparr>command = ''OPTIONS'', path = ''/api/users'', request_version = ''HTTP/1.1'',
                    content_length = None, rfile = []\<rparr>"
  have "read_json sample_env ?post = Inl TypeError"
    by (simp add: read_json_no_length)
  then have "serve sample_env ?post = except_reply sample_env TypeError"
    by (simp add: serve_POST_api handle_api_post_read_fails)
  then have no_length: "serve sample_env ?post = error_reply 500 ''Internal server error: TypeError''"
    by (simp add: except_reply_def sample_env_def sample_str_def)
  have "serve sample_env (post ''/api/users'' ''1'' ''{'') = except_reply sample_env JSONDecodeError"
    by (simp add: serve_POST_api handle_api_post_read_fails read_json_sample(6))
  then have malformed: "serve sample_env (post ''/api/users'' ''1'' ''{'') =
      error_reply 400 ''Invalid JSON''"
    by (simp add: except_reply_def)
  have options: "serve sample_env ?options = [Head 200 ''OK'' fixed_headers]"
    by (simp add: serve_def wfile_do_OPTIONS)
  from no_length malformed options show ?thesis by simp
qed

text \<open>
  C5 (amended). Every GET whose path starts with \<open>/api/\<close> and is neither
  \<open>/api/health\<close> nor \<open>/api/config\<close> is answered 404 with the reason
  \<open>API endpoint not found\<close>; so is every POST whose path starts with \<open>/api/\<close>,
  whose body is read and parsed, and whose path is none of the four POST endpoints; and
  every POST whose path does not start with \<open>/api/\<close> is answered 404 with the reason
  \<open>Not Found\<close>.
\<close>

theorem unmatched_routes:
  "(command req = ''GET'' \<and> prefix ''/api/'' (path req) \<and>
      path req \<noteq> ''/api/health'' \<and> path req \<noteq> ''/api/config'' \<longrightarrow>
      serve env req = on_wire req (error_reply 404 ''API endpoint not found'')) \<and>
   (\<forall>data. command req = ''POST'' \<and> prefix ''/api/'' (path req) \<and>
      read_json env req = Inr data \<and>
      path req \<noteq> ''/api/auth/login'' \<and> path req \<noteq> ''/api/auth/register'' \<and>
      path req \<noteq> ''/api/training/sessions'' \<and> path req \<noteq> ''/api/ai/analysis'' \<longrightarrow>
      serve env req = on_wire req (error_reply 404 ''API endpoint not found'')) \<and>
   (command req = ''POST'' \<and> \<not> prefix ''/api/'' (path req) \<longrightarrow>
      serve env req = on_wire req (error_reply 404 ''Not Found''))"
proof (intro conjI allI impI)
  assume "command req = ''GET'' \<and> prefix ''/api/'' (path req) \<and>
      path req \<noteq> ''/api/health'' \<and> path req \<noteq> ''/api/config''"
  then show "serve env req = on_wire req (error_reply 404 ''API endpoint not found'')"
    by (simp add: serve_GET_api wfile_handle_api_get)
next
  fix data
  assume a: "command req = ''POST'' \<and> prefix ''/api/'' (path req) \<and>
      read_json env req = Inr data \<and>
      path req \<noteq> ''/api/auth/login'' \<and> path req \<noteq> ''/api/auth/register'' \<and>
      path req \<noteq> ''/api/training/sessions'' \<and> path req \<noteq> ''/api/ai/analysis''"
  then have "command req = ''POST''" "read_json env req = Inr data" by simp_all
  from handle_api_post_routed [OF this] a
  show "serve env req = on_wire req (error_reply 404 ''API endpoint not found'')"
    by (simp add: serve_POST_api route_post_other)
next
  assume "command req = ''POST'' \<and> \<not> prefix ''/api/'' (path req)"
  then show "serve env req = on_wire req (error_reply 404 ''Not Found'')"
    by (simp add: serve_def do_POST_def)
qed

text \<open>One request for each of the three parts.\<close>

theorem unmatched_routes_witness:
  "serve sample_env (bare ''GET'' ''/api/users'') = error_reply 404 ''API endpoint not found'' \<and>
   read_json sample_env (post ''/api/users'' ''2'' ''{}'') = Inr (JObj []) \<and>
   serve sample_env (post ''/api/users'' ''2'' ''{}'') =
     error_reply 404 ''API endpoint not found'' \<and>
   serve sample_env (post ''/login'' ''2'' ''{}'') = error_reply 404 ''Not Found''"
proof -
  have "serve sample_env (bare ''GET'' ''/api/users'') =
      error_reply 404 ''API endpoint not found''"
    using unmatched_routes [of "bare ''GET'' ''/api/users''" sample_env] by simp
  moreover have "serve sample_env (post ''/api/users'' ''2'' ''{}'') =
     error_reply 404 ''API endpoint not found''"
    using unmatched_routes [of "post ''/api/users'' ''2'' ''{}''" sample_env]
      read_json_sample(4) [of "''/api/users''"]
    by simp
  moreover have "serve sample_env (post ''/login'' ''2'' ''{}'') = error_reply 404 ''Not Found''"
    using unmatched_routes [of "post ''/login'' ''2'' ''{}''" sample_env]
    by simp
  ultimately show ?thesis
    using read_json_sample(4) [of "''/api/users''"] by blast
qed

subsection \<open>C6: the six fixed headers\<close>

text \<open>
  The base class writes a status line and header lines only when the request version
  is not HTTP/0.9. A request line of two words, \<open>GET /api/config\<close>, has that version:
  the answer is the JSON body alone, without a status line and without any of the six
  header lines.
\<close>

theorem versionless_get_has_no_headers:
  "serve sample_env
     \<lparr>command = ''GET'', path = ''/api/config'', request_version = ''HTTP/0.9'',
      content_length = None, rfile = []\<rparr> =
     [Body (JsonBody api_config)]"
  by (simp add: serve_GET_api wfile_handle_api_get json_reply_def)

text \<open>
  C6 (amended). Every head the server writes (for success responses, 404s, 400s, 500s
  and 501s alike, for the answers of the static file server, and for the errors the
  base class answers before a request method runs) carries all six fixed header lines;
  and while the request version that the handler holds is not HTTP/0.9, every response
  starts with such a head. The server writes nothing at all only when the static file
  server raises. While the request version is HTTP/0.9 the server writes body chunks
  only: no status line and none of the six header lines.
\<close>

theorem responses_carry_fixed_headers:
  "(\<forall>answer \<in> {serve env req, refuse req code message}.
      (\<forall>code' message' hs.
         Head code' message' hs \<in> set answer \<longrightarrow>
         {(''Access-Control-Allow-Origin'', ''*''),
          (''Access-Control-Allow-Methods'', ''GET, POST, PUT, DELETE, OPTIONS''),
          (''Access-Control-Allow-Headers'', ''Content-Type, Authorization''),
          (''Cache-Control'', ''no-cache, no-store, must-revalidate''),
          (''Pragma'', ''no-cache''),
          (''Expires'', ''0'')} \<subseteq> set hs) \<and>
      (request_version req \<noteq> ''HTTP/0.9'' \<and> answer \<noteq> [] \<longrightarrow>
         (\<exists>code' message' hs rest. answer = Head code' message' hs # rest)) \<and>
      (request_version req = ''HTTP/0.9'' \<longrightarrow> list_all is_body answer)) \<and>
   (request_version req \<noteq> ''HTTP/0.9'' \<longrightarrow>
      refuse req code message \<noteq> [] \<and>
      (serve env req = [] \<longrightarrow>
         static_get env (path req) = Raised \<and>
         (command req = ''HEAD'' \<or> command req = ''GET'' \<and> \<not> prefix ''/api/'' (path req))))"
proof -
  from serve_on_wire [of env req] obtain served where
    served: "headed served \<or>
       served = [] \<and> static_get env (path req) = Raised \<and>
       (command req = ''HEAD'' \<or> command req = ''GET'' \<and> \<not> prefix ''/api/'' (path req))"
    and serve: "serve env req = on_wire req served"
    by blast
  from refuse_on_wire [of req code message] obtain refused where
    refused: "headed refused" and refuse: "refuse req code message = on_wire req refused"
    by blast
  from served have served': "headed served \<or> served = []" by blast
  from refused have refused': "headed refused \<or> refused = []" ..
  have heads: "set fixed_headers \<subseteq> set hs"
    if "answer \<in> {serve env req, refuse req code message}"
      and "Head code' message' hs \<in> set answer" for answer code' message' hs
  proof -
    from that(1) have "answer = on_wire req served \<or> answer = on_wire req refused"
      by (auto simp: serve refuse)
    then show ?thesis
      using that(2) on_wire_headed(1) [OF served'] on_wire_headed(1) [OF refused'] by blast
  qed
  have starts: "\<exists>code' message' hs rest. answer = Head code' message' hs # rest"
    if "answer \<in> {serve env req, refuse req code message}"
      and "request_version req \<noteq> ''HTTP/0.9''" and "answer \<noteq> []" for answer
    using that on_wire_headed(2) [OF served'] on_wire_headed(2) [OF refused']
    by (auto simp: serve refuse)
  have bodies: "list_all is_body answer"
    if "answer \<in> {serve env req, refuse req code message}"
      and "request_version req = ''HTTP/0.9''" for answer
    using that on_wire_headed(3) [OF served'] on_wire_headed(3) [OF refused']
    by (auto simp: serve refuse)
  have written: "refuse req code message \<noteq> []" if "request_version req \<noteq> ''HTTP/0.9''"
    using that refused headedE(1) [of refused] by (auto simp: refuse)
  have silent: "static_get env (path req) = Raised \<and>
      (command req = ''HEAD'' \<or> command req = ''GET'' \<and> \<not> prefix ''/api/'' (path req))"
    if "request_version req \<noteq> ''HTTP/0.9''" and "serve env req = []"
    using that served headedE(1) [of served] by (auto simp: serve)
  have each: "\<forall>answer \<in> {serve env req, refuse req code message}.
      (\<forall>code' message' hs.
         Head code' message' hs \<in> set answer \<longrightarrow>
         {(''Access-Control-Allow-Origin'', ''*''),
          (''Access-Control-Allow-Methods'', ''GET, POST, PUT, DELETE, OPTIONS''),
          (''Access-Control-Allow-Headers'', ''Content-Type, Authorization''),
          (''Cache-Control'', ''no-cache, no-store, must-revalidate''),
          (''Pragma'', ''no-cache''),
          (''Expires'', ''0'')} \<subseteq> set hs) \<and>
      (request_version req \<noteq> ''HTTP/0.9'' \<and> answer \<noteq> [] \<longrightarrow>
         (\<exists>code' message' hs rest. answer = Head code' message' hs # rest)) \<and>
      (request_version req = ''HTTP/0.9'' \<longrightarrow> list_all is_body answer)"
  proof (intro ballI conjI allI impI)
    fix answer code' message' hs
    assume "answer \<in> {serve env req, refuse req code message}"
      and "Head code' message' hs \<in> set answer"
    then have "set fixed_headers \<subseteq> set hs" by (rule heads)
    then show "{(''Access-Control-Allow-Origin'', ''*''),
          (''Access-Control-Allow-Methods'', ''GET, POST, PUT, DELETE, OPTIONS''),
          (''Access-Control-Allow-Headers'', ''Content-Type, Authorization''),
          (''Cache-Control'', ''no-cache, no-store, must-revalidate''),
          (''Pragma'', ''no-cache''),
          (''Expires'', ''0'')} \<subseteq> set hs"
      by (simp add: fixed_headers_def)
  next
    fix answer
    assume "answer \<in> {serve env req, refuse req code message}"
      and "request_version req \<noteq> ''HTTP/0.9'' \<and> answer \<noteq> []"
    then show "\<exists>code' message' hs rest. answer = Head code' message' hs # rest"
      using starts [of answer] by (elim conjE)
  next
    fix answer
    assume "answer \<in> {serve env req, refuse req code message}"
      and "request_version req = ''HTTP/0.9''"
    then show "list_all is_body answer" by (rule bodies)
  qed
  have silence: "request_version req \<noteq> ''HTTP/0.9'' \<longrightarrow>
      refuse req code message \<noteq> [] \<and>
      (serve env req = [] \<longrightarrow>
         static_get env (path req) = Raised \<and>
         (command req = ''HEAD'' \<or> command req = ''GET'' \<and> \<not> prefix ''/api/'' (path req)))"
    using written silent by blast
  from each silence show ?thesis ..
qed

text \<open>
  The 404 for an unknown API path, written out, and the answer to a GET of version
  HTTP/0.9.
\<close>

theorem responses_carry_fixed_headers_witness:
  "serve sample_env (post ''/api/users'' ''2'' ''{}'') =
     Head 404 ''API endpoint not found''
       ((''Connection'', ''close'') # (''Content-Type'', ''text/html;charset=utf-8'') #
        fixed_headers) #
     [Body (ErrorPage 404 ''API endpoint not found'')] \<and>
   (''Expires'', ''0'') \<in> set ((''Connection'', ''close'') #
        (''Content-Type'', ''text/html;charset=utf-8'') # fixed_headers) \<and>
   list_all is_body
     (serve sample_env
        \<lparr>command = ''GET'', path = ''/api/config'', request_version = ''HTTP/0.9'',
         content_length = None, rfile = []\<rparr>)"
proof -
  let ?old = "\<lparr>command = ''GET'', path = ''/api/config'', request_version = ''HTTP/0.9'',
                content_length = None, rfile = []\<rparr>"
  let ?hs = "(''Connection'', ''close'') # (''Content-Type'', ''text/html;charset=utf-8'') #
      fixed_headers"
  have reply: "serve sample_env (post ''/api/users'' ''2'' ''{}'') =
      [Head 404 ''API endpoint not found'' ?hs, Body (ErrorPage 404 ''API endpoint not found'')]"
    by (simp add: serve_POST_api handle_api_post_routed [OF _ read_json_sample(4)]
          route_post_other error_reply_def has_error_page_def)
  then have "Head 404 ''API endpoint not found'' ?hs \<in>
      set (serve sample_env (post ''/api/users'' ''2'' ''{}''))"
    by simp
  moreover
  from responses_carry_fixed_headers [of sample_env "post ''/api/users'' ''2'' ''{}''" 404 "[]"]
  have "\<forall>code' message' hs.
      Head code' message' hs \<in> set (serve sample_env (post ''/api/users'' ''2'' ''{}'')) \<longrightarrow>
      (''Expires'', ''0'') \<in> set hs"
    by simp
  ultimately have expires: "(''Expires'', ''0'') \<in> set ?hs"
    by (elim allE impE)
  from responses_carry_fixed_headers [of sample_env ?old 404 "[]"]
  have "list_all is_body (serve sample_env ?old)"
    by simp
  with reply expires show ?thesis
    by (intro conjI)
qed

subsection \<open>C7: the configuration constant\<close>

text \<open>
  C7. Every GET of \<open>/api/config\<close> is answered with status 200 and the same JSON
  body: the application name, the version, and the four feature flags, all true. The
  answer depends neither on the environment nor on the rest of the request.
\<close>

theorem config_is_constant:
  assumes "command req = ''GET''" and "path req = ''/api/config''"
  shows "serve env req =
     on_wire req
       [Head 200 ''OK'' ((''Content-Type'', ''application/json'') # fixed_headers),
        Body (JsonBody
          (JObj [(''appName'', JStr ''AthleteAI''),
                 (''version'', JStr ''1.0.0''),
                 (''features'', JObj [(''aiTesting'', JBool True),
                                      (''faceRecognition'', JBool True),
                                      (''offlineMode'', JBool True),
                                      (''pwa'', JBool True)])]))]"
  using assms
  by (simp add: serve_GET_api wfile_handle_api_get api_config_def json_reply_def)

theorem config_is_constant_witness:
  "serve sample_env (bare ''GET'' ''/api/config'') =
     [Head 200 ''OK'' ((''Content-Type'', ''application/json'') # fixed_headers),
      Body (JsonBody
        (JObj [(''appName'', JStr ''AthleteAI''),
               (''version'', JStr ''1.0.0''),
               (''features'', JObj [(''aiTesting'', JBool True),
                                    (''faceRecognition'', JBool True),
                                    (''offlineMode'', JBool True),
                                    (''pwa'', JBool True)])]))]"
  using config_is_constant [of "bare ''GET'' ''/api/config''" sample_env]
  by simp

subsection \<open>C8: the session and analysis handlers ignore the body\<close>

text \<open>
  C8. At equal clock values the training-session handler returns the same result for
  any two bodies, and so does the AI-analysis handler: \<open>success\<close> true, the identifier
  \<open>session_\<close> or \<open>analysis_\<close> followed by the timestamp, and the fixed message.
  Two POST requests to the same one of the two paths whose bodies parse are sent the
  same answer, and get the same answer when their versions are the same.
\<close>

theorem handlers_ignore_body:
  assumes reqs: "command r1 = ''POST''" "command r2 = ''POST''" "path r1 = path r2"
      "path r1 = ''/api/training/sessions'' \<or> path r1 = ''/api/ai/analysis''"
    and clock: "now e1 = now e2"
    and bodies: "read_json e1 r1 = Inr d1" "read_json e2 r2 = Inr d2"
  shows "handle_training_session (now e1) d1 = handle_training_session (now e2) d2 \<and>
         handle_training_session (now e1) d1 =
           Inr (JObj [(''success'', JBool True),
                      (''sessionId'', JStr (''session_'' @ timestamp (now e1))),
                      (''message'', JStr ''Training session saved successfully'')]) \<and>
         handle_ai_analysis (now e1) d1 = handle_ai_analysis (now e2) d2 \<and>
         handle_ai_analysis (now e1) d1 =
           Inr (JObj [(''success'', JBool True),
                      (''analysisId'', JStr (''analysis_'' @ timestamp (now e1))),
                      (''message'', JStr ''AI analysis saved successfully'')]) \<and>
         (\<exists>result.
            (if path r1 = ''/api/training/sessions'' then handle_training_session (now e1) d1
             else handle_ai_analysis (now e1) d1) = Inr result \<and>
            serve e1 r1 = on_wire r1 (json_reply result) \<and>
            serve e2 r2 = on_wire r2 (json_reply result)) \<and>
         (request_version r1 = request_version r2 \<longrightarrow> serve e1 r1 = serve e2 r2)"
proof -
  have handlers: "handle_training_session (now e1) d1 = handle_training_session (now e2) d2"
    "handle_ai_analysis (now e1) d1 = handle_ai_analysis (now e2) d2"
    by (simp_all add: handle_training_session_def handle_ai_analysis_def clock)
  have sent: "\<exists>result.
      (if path r1 = ''/api/training/sessions'' then handle_training_session (now e1) d1
       else handle_ai_analysis (now e1) d1) = Inr result \<and>
      serve e1 r1 = on_wire r1 (json_reply result) \<and>
      serve e2 r2 = on_wire r2 (json_reply result)"
    using reqs(4)
  proof
    assume p: "path r1 = ''/api/training/sessions''"
    with reqs have p2: "path r2 = ''/api/training/sessions''" by simp
    show ?thesis
      by (simp add: serve_POST_api reqs p p2 handle_api_post_routed [OF reqs(1) bodies(1)]
            handle_api_post_routed [OF reqs(2) bodies(2)] route_post_training
            handle_training_session_def clock send_json_response_fresh)
  next
    assume p: "path r1 = ''/api/ai/analysis''"
    with reqs have p2: "path r2 = ''/api/ai/analysis''" by simp
    show ?thesis
      by (simp add: serve_POST_api reqs p p2 handle_api_post_routed [OF reqs(1) bodies(1)]
            handle_api_post_routed [OF reqs(2) bodies(2)] route_post_analysis
            handle_ai_analysis_def clock send_json_response_fresh)
  qed
  then have "serve e1 r1 = serve e2 r2" if "request_version r1 = request_version r2"
    using that by (auto simp: on_wire_def)
  with handlers sent show ?thesis
    by (simp add: handle_training_session_def handle_ai_analysis_def)
qed

text \<open>Two different object bodies sent to \<open>/api/training/sessions\<close>.\<close>

theorem handlers_ignore_body_witness:
  "read_json sample_env (post ''/api/training/sessions'' ''2'' ''{}'') = Inr (JObj []) \<and>
   read_json sample_env (post ''/api/training/sessions'' ''51'' good_login_text) = Inr good_login \<and>
   JObj [] \<noteq> good_login \<and>
   serve sample_env (post ''/api/training/sessions'' ''2'' ''{}'') =
     serve sample_env (post ''/api/training/sessions'' ''51'' good_login_text) \<and>
   handle_training_session sample_now (JObj []) =
     Inr (JObj [(''success'', JBool True),
                (''sessionId'', JStr ''session_1704067200.0''),
                (''message'', JStr ''Training session saved successfully'')])"
proof -
  let ?r1 = "post ''/api/training/sessions'' ''2'' ''{}''"
  let ?r2 = "post ''/api/training/sessions'' ''51'' good_login_text"
  have reqs: "command ?r1 = ''POST''" "command ?r2 = ''POST''" "path ?r1 = path ?r2"
    "path ?r1 = ''/api/training/sessions'' \<or> path ?r1 = ''/api/ai/analysis''"
    by simp_all
  have version: "request_version ?r1 = request_version ?r2"
    by (simp add: post_def)
  from handlers_ignore_body [OF reqs refl read_json_sample(4) read_json_sample(1)] version
  have same: "serve sample_env ?r1 = serve sample_env ?r2"
    and session: "handle_training_session (now sample_env) (JObj []) =
      Inr (JObj [(''success'', JBool True),
                 (''sessionId'', JStr (''session_'' @ timestamp (now sample_env))),
                 (''message'', JStr ''Training session saved successfully'')])"
    by blast+
  from session have "handle_training_session sample_now (JObj []) =
     Inr (JObj [(''success'', JBool True),
                (''sessionId'', JStr ''session_1704067200.0''),
                (''message'', JStr ''Training session saved successfully'')])"
    by (simp add: sample_env_def sample_now_def)
  moreover have "JObj [] \<noteq> good_login"
    by (simp add: good_login_def)
  ultimately show ?thesis
    using same read_json_sample(4) [of "''/api/training/sessions''"]
      read_json_sample(1) [of "''/api/training/sessions''"]
    by blast
qed

subsection \<open>C9: a body that is valid JSON but not an object\<close>

text \<open>
  Only \<open>handle_login\<close> and \<open>handle_register\<close> call \<open>data.get\<close>. The other two
  handlers never touch \<open>data\<close>, so a JSON array sent to \<open>/api/training/sessions\<close> is
  answered 200.
\<close>

theorem array_body_to_sessions_is_200:
  "read_json sample_env (post ''/api/training/sessions'' ''2'' ''[]'') = Inr (JArr []) \<and>
   serve sample_env (post ''/api/training/sessions'' ''2'' ''[]'') =
     [Head 200 ''OK'' ((''Content-Type'', ''application/json'') # fixed_headers),
      Body (JsonBody (JObj [(''success'', JBool True),
                            (''sessionId'', JStr ''session_1704067200.0''),
                            (''message'', JStr ''Training session saved successfully'')]))]"
proof -
  have req: "command (post ''/api/training/sessions'' ''2'' ''[]'') = ''POST''"
    "path (post ''/api/training/sessions'' ''2'' ''[]'') = ''/api/training/sessions''"
    by simp_all
  have "serve sample_env (post ''/api/training/sessions'' ''2'' ''[]'') =
      json_reply (JObj [(''success'', JBool True),
                        (''sessionId'', JStr (''session_'' @ timestamp (now sample_env))),
                        (''message'', JStr ''Training session saved successfully'')])"
    by (simp add: serve_POST_api req handle_api_post_routed [OF req(1) read_json_sample(5)]
          route_post_training handle_training_session_def send_json_response_fresh)
  moreover have "timestamp (now sample_env) = ''1704067200.0''"
    by (simp add: sample_env_def sample_now_def)
  ultimately show ?thesis
    by (simp add: read_json_sample json_reply_def)
qed

text \<open>
  C9 (amended). For every POST whose body is valid JSON but not a JSON object: on
  \<open>/api/auth/login\<close> and \<open>/api/auth/register\<close> the answer is a 500, since
  \<open>data.get\<close> raises AttributeError and only the generic \<open>except\<close> clause catches
  it; on \<open>/api/training/sessions\<close> and \<open>/api/ai/analysis\<close> the answer is the usual
  200 of the handler.
\<close>

theorem non_object_body:
  assumes req: "command req = ''POST''"
    and body: "read_json env req = Inr data"
    and shape: "\<forall>kv. data \<noteq> JObj kv"
  shows "(path req = ''/api/auth/login'' \<or> path req = ''/api/auth/register'' \<longrightarrow>
            serve env req =
              on_wire req
                (error_reply 500 (''Internal server error: '' @ str_of_exn env AttributeError))) \<and>
         (path req = ''/api/training/sessions'' \<longrightarrow>
            serve env req =
              on_wire req
                (json_reply (JObj [(''success'', JBool True),
                                   (''sessionId'', JStr (''session_'' @ timestamp (now env))),
                                   (''message'', JStr ''Training session saved successfully'')]))) \<and>
         (path req = ''/api/ai/analysis'' \<longrightarrow>
            serve env req =
              on_wire req
                (json_reply (JObj [(''success'', JBool True),
                                   (''analysisId'', JStr (''analysis_'' @ timestamp (now env))),
                                   (''message'', JStr ''AI analysis saved successfully'')])))"
proof -
  from shape have get: "py_get data k d = Inl AttributeError" for k d
    by (cases data) simp_all
  have login: "handle_login (now env) data = Inl AttributeError"
    by (simp add: handle_login_def get)
  have register: "handle_register (now env) data = Inl AttributeError"
    by (simp add: handle_register_def get)
  note routed = handle_api_post_routed [OF req body]
  show ?thesis
  proof (intro conjI impI)
    assume "path req = ''/api/auth/login'' \<or> path req = ''/api/auth/register''"
    then show "serve env req =
        on_wire req
          (error_reply 500 (''Internal server error: '' @ str_of_exn env AttributeError))"
      by (auto simp: serve_POST_api req routed route_post_login route_post_register login
            register except_reply_def)
  next
    assume "path req = ''/api/training/sessions''"
    then show "serve env req =
        on_wire req
          (json_reply (JObj [(''success'', JBool True),
                             (''sessionId'', JStr (''session_'' @ timestamp (now env))),
                             (''message'', JStr ''Training session saved successfully'')]))"
      by (simp add: serve_POST_api req routed route_post_training handle_training_session_def
            send_json_response_fresh)
  next
    assume "path req = ''/api/ai/analysis''"
    then show "serve env req =
        on_wire req
          (json_reply (JObj [(''success'', JBool True),
                             (''analysisId'', JStr (''analysis_'' @ timestamp (now env))),
                             (''message'', JStr ''AI analysis saved successfully'')]))"
      by (simp add: serve_POST_api req routed route_post_analysis handle_ai_analysis_def
            send_json_response_fresh)
  qed
qed

text \<open>The empty array sent to three of the endpoints.\<close>

theorem non_object_body_witness:
  "read_json sample_env (post ''/api/auth/login'' ''2'' ''[]'') = Inr (JArr []) \<and>
   serve sample_env (post ''/api/auth/login'' ''2'' ''[]'') =
     error_reply 500 ''Internal server error: AttributeError'' \<and>
   serve sample_env (post ''/api/auth/register'' ''2'' ''[]'') =
     error_reply 500 ''Internal server error: AttributeError'' \<and>
   serve sample_env (post ''/api/ai/analysis'' ''2'' ''[]'') =
     json_reply (JObj [(''success'', JBool True),
                       (''analysisId'', JStr ''analysis_1704067200.0''),
                       (''message'', JStr ''AI analysis saved successfully'')])"
proof -
  have shape: "\<forall>kv. JArr [] \<noteq> JObj kv" by simp
  have cmd: "command (post p ''2'' ''[]'') = ''POST''" for p by simp
  note inst = non_object_body [OF cmd read_json_sample(5) shape]
  have "serve sample_env (post ''/api/auth/login'' ''2'' ''[]'') =
     error_reply 500 ''Internal server error: AttributeError''"
    using inst [of "''/api/auth/login''"]
    by (simp add: sample_env_def sample_str_def)
  moreover have "serve sample_env (post ''/api/auth/register'' ''2'' ''[]'') =
     error_reply 500 ''Internal server error: AttributeError''"
    using inst [of "''/api/auth/register''"]
    by (simp add: sample_env_def sample_str_def)
  moreover have "serve sample_env (post ''/api/ai/analysis'' ''2'' ''[]'') =
     json_reply (JObj [(''success'', JBool True),
                       (''analysisId'', JStr ''analysis_1704067200.0''),
                       (''message'', JStr ''AI analysis saved successfully'')])"
    using inst [of "''/api/ai/analysis''"]
    by (simp add: sample_env_def sample_now_def)
  ultimately show ?thesis by (simp add: read_json_sample)
qed

subsection \<open>C10: a POST without Content-Length\<close>

text \<open>
  C10. Every POST to a path under \<open>/api/\<close> without a Content-Length header gets
  exactly one answer, a 500: \<open>int(None)\<close> raises TypeError before the body is read,
  and the generic \<open>except\<close> clause answers.
\<close>

theorem missing_content_length:
  assumes "command req = ''POST''" and "prefix ''/api/'' (path req)"
    and "content_length req = None"
  shows "serve env req =
           on_wire req
             [Head 500 (''Internal server error: '' @ str_of_exn env TypeError)
                ((''Connection'', ''close'') # (''Content-Type'', ''text/html;charset=utf-8'') #
                 fixed_headers),
              Body (ErrorPage 500 (''Internal server error: '' @ str_of_exn env TypeError))] \<and>
         length (filter is_body (serve env req)) = 1 \<and>
         length (filter (\<lambda>c. \<not> is_body c) (serve env req)) =
           (if request_version req = ''HTTP/0.9'' then 0 else 1)"
proof -
  from assms(3) have "read_json env req = Inl TypeError"
    by (rule read_json_no_length)
  then have "serve env req = on_wire req (except_reply env TypeError)"
    by (simp add: serve_POST_api assms handle_api_post_read_fails)
  then show ?thesis
    by (simp add: except_reply_def error_reply_def has_error_page_def on_wire_def)
qed

text \<open>A login request with a good body and no Content-Length header.\<close>

theorem missing_content_length_witness:
  "serve sample_env
     \<lparr>command = ''POST'', path = ''/api/auth/login'', request_version = ''HTTP/1.1'',
      content_length = None, rfile = ascii_bytes good_login_text\<rparr> =
     [Head 500 ''Internal server error: TypeError''
        ((''Connection'', ''close'') # (''Content-Type'', ''text/html;charset=utf-8'') #
         fixed_headers),
      Body (ErrorPage 500 ''Internal server error: TypeError'')]"
  using missing_content_length
    [of "\<lparr>command = ''POST'', path = ''/api/auth/login'', request_version = ''HTTP/1.1'',
          content_length = None, rfile = ascii_bytes good_login_text\<rparr>" sample_env]
  by (simp add: sample_env_def sample_str_def)

end
